theory Spec2Isabelle
  imports Complex_Main "HOL-Library.Sublist"
begin

section \<open>JavaScript strings\<close>

text \<open>
  A JavaScript string is a sequence of UTF-16 code units; a code unit is modelled as a
  natural number and a string as the list of its code units, so that \<open>s.length\<close> is
  \<^term>\<open>length s\<close>. \<open>str\<close> turns an ASCII literal into such a string.
\<close>

type_synonym jstr = "nat list"

definition str :: "string \<Rightarrow> jstr" where
  "str s = map of_char s"

text \<open>
  \<open>String.prototype.toLowerCase\<close> on the code units 0..255 (A-Z and the Latin-1 capitals);
  code units above 255 are left as they are: the Unicode case mapping beyond Latin-1 is not
  modelled.
\<close>

definition lower_unit :: "nat \<Rightarrow> nat" where
  "lower_unit c =
     (if (65 \<le> c \<and> c \<le> 90) \<or> (192 \<le> c \<and> c \<le> 214) \<or> (216 \<le> c \<and> c \<le> 222)
      then c + 32 else c)"

definition toLowerCase :: "jstr \<Rightarrow> jstr" where
  "toLowerCase s = map lower_unit s"

text \<open>\<open>s.includes(sub)\<close>: \<open>sub\<close> occurs in \<open>s\<close> as a contiguous run of code units.\<close>

fun str_includes :: "jstr \<Rightarrow> jstr \<Rightarrow> bool" where
  "str_includes [] sub = (sub = [])"
| "str_includes (c # cs) sub = (prefix sub (c # cs) \<or> str_includes cs sub)"

definition is_digit :: "nat \<Rightarrow> bool" where
  "is_digit c = (48 \<le> c \<and> c \<le> 57)"

text \<open>
  The regular expression \<open>/ex[-_]?\d+/i\<close>. \<open>ex_match_here s\<close>: the expression matches a prefix
  of \<open>s\<close>; \<open>ex_test s\<close> is \<open>RegExp.prototype.test\<close>: it matches at some position of \<open>s\<close>.
  The code units are e = 101, E = 69, x = 120, X = 88, hyphen = 45, underscore = 95.
\<close>

fun digit_next :: "jstr \<Rightarrow> bool" where
  "digit_next [] = False"
| "digit_next (d # ds) = is_digit d"

fun ex_match_here :: "jstr \<Rightarrow> bool" where
  "ex_match_here (e # x # rest) =
     ((e = 101 \<or> e = 69) \<and> (x = 120 \<or> x = 88) \<and>
      (case rest of
         [] \<Rightarrow> False
       | d # ds \<Rightarrow> if d = 45 \<or> d = 95 then digit_next ds else is_digit d))"
| "ex_match_here s = False"

fun ex_test :: "jstr \<Rightarrow> bool" where
  "ex_test [] = False"
| "ex_test (c # cs) = (ex_match_here (c # cs) \<or> ex_test cs)"

section \<open>Document classification\<close>

datatype DocumentType = transcript | prior_testimony | exhibit | case_file | other

text \<open>
  \<open>detectDocumentType(filename, content?)\<close> of the deposition tool. The optional
  \<open>content\<close> is an \<^typ>\<open>jstr option\<close>; \<open>content || ''\<close> reads a missing content as the
  empty string.
\<close>

definition detectDocumentType :: "jstr \<Rightarrow> jstr option \<Rightarrow> DocumentType" where
  "detectDocumentType filename content =
     (let lowerName = toLowerCase filename;
          lowerContent = toLowerCase (case content of None \<Rightarrow> [] | Some c \<Rightarrow> c)
      in if str_includes lowerName (str ''transcript'') \<or> str_includes lowerName (str ''deposition'') \<or>
            str_includes lowerContent (str ''q:'') \<or> str_includes lowerContent (str ''a:'')
         then transcript
         else if str_includes lowerName (str ''testimony'') \<or> str_includes lowerName (str ''statement'') \<or>
            str_includes lowerContent (str ''sworn'') \<or> str_includes lowerContent (str ''under oath'')
         then prior_testimony
         else if str_includes lowerName (str ''exhibit'') \<or> ex_test lowerName
         then exhibit
         else if str_includes lowerName (str ''complaint'') \<or> str_includes lowerName (str ''motion'') \<or>
            str_includes lowerName (str ''brief'') \<or> str_includes lowerName (str ''filing'')
         then case_file
         else other)"

text \<open>
  The classifier as the specification words it: an ordered list of rules, each a document
  type with a test on the file name and a test on the content; the first rule one of whose
  tests succeeds gives the type, and \<open>other\<close> is the default.
\<close>

record heuristic =
  rule_type :: DocumentType
  name_keywords :: "jstr list"
  name_pattern :: bool
  content_keywords :: "jstr list"

definition rule_matches :: "heuristic \<Rightarrow> jstr \<Rightarrow> jstr \<Rightarrow> bool" where
  "rule_matches r lowerName lowerContent =
     (list_ex (str_includes lowerName) (name_keywords r) \<or>
      (name_pattern r \<and> ex_test lowerName) \<or>
      list_ex (str_includes lowerContent) (content_keywords r))"

fun first_match :: "heuristic list \<Rightarrow> jstr \<Rightarrow> jstr \<Rightarrow> DocumentType" where
  "first_match [] lowerName lowerContent = other"
| "first_match (r # rs) lowerName lowerContent =
     (if rule_matches r lowerName lowerContent then rule_type r
      else first_match rs lowerName lowerContent)"

definition classification_rules :: "heuristic list" where
  "classification_rules =
     [\<lparr>rule_type = transcript, name_keywords = [str ''transcript'', str ''deposition''],
        name_pattern = False, content_keywords = [str ''q:'', str ''a:'']\<rparr>,
      \<lparr>rule_type = prior_testimony, name_keywords = [str ''testimony'', str ''statement''],
        name_pattern = False, content_keywords = [str ''sworn'', str ''under oath'']\<rparr>,
      \<lparr>rule_type = exhibit, name_keywords = [str ''exhibit''],
        name_pattern = True, content_keywords = []\<rparr>,
      \<lparr>rule_type = case_file, name_keywords = [str ''complaint'', str ''motion'', str ''brief'', str ''filing''],
        name_pattern = False, content_keywords = []\<rparr>]"

definition classify_spec :: "jstr \<Rightarrow> jstr option \<Rightarrow> DocumentType" where
  "classify_spec filename content =
     first_match classification_rules (toLowerCase filename)
       (toLowerCase (case content of None \<Rightarrow> [] | Some c \<Rightarrow> c))"

section \<open>JSON values and \<open>JSON.parse\<close>\<close>

text \<open>
  The values \<open>JSON.parse\<close> returns. A number is kept as the exact rational its literal
  denotes (the rounding to a double is not modelled). An object is the list of its members in
  the order of the text; a later member with the same key overrides an earlier one.
\<close>

datatype json =
    JNull
  | JBool bool
  | JNum rat
  | JStr jstr
  | JArr "json list"
  | JObj "(jstr \<times> json) list"

text \<open>JSON whitespace: tab, line feed, carriage return, space.\<close>

definition is_json_ws :: "nat \<Rightarrow> bool" where
  "is_json_ws c = (c = 9 \<or> c = 10 \<or> c = 13 \<or> c = 32)"

definition skip_ws :: "jstr \<Rightarrow> jstr" where
  "skip_ws s = dropWhile is_json_ws s"

text \<open>Numbers: \<open>-? (0 | [1-9][0-9]*) (. [0-9]+)? ([eE] [+-]? [0-9]+)?\<close>.\<close>

definition digit_val :: "nat \<Rightarrow> nat" where
  "digit_val c = c - 48"

definition digits_val :: "jstr \<Rightarrow> nat" where
  "digits_val ds = foldl (\<lambda>acc d. 10 * acc + digit_val d) 0 ds"

text \<open>The integer part: a single 0, or a non-empty run of digits that does not start with 0.\<close>

definition lex_int :: "jstr \<Rightarrow> (nat \<times> jstr) option" where
  "lex_int s =
     (case s of
        [] \<Rightarrow> None
      | c # cs \<Rightarrow>
          if c = 48 then Some (0, cs)
          else if is_digit c then Some (digits_val (takeWhile is_digit s), dropWhile is_digit s)
          else None)"

text \<open>The optional fraction: a dot followed by at least one digit.\<close>

definition lex_frac :: "jstr \<Rightarrow> (rat \<times> jstr) option" where
  "lex_frac s =
     (case s of
        c # cs \<Rightarrow>
          if c = 46 then
            (let ds = takeWhile is_digit cs
             in if ds = [] then None
                else Some (of_nat (digits_val ds) / 10 ^ length ds, dropWhile is_digit cs))
          else Some (0, s)
      | [] \<Rightarrow> Some (0, s))"

text \<open>The optional exponent: e or E, an optional sign, at least one digit.\<close>

definition lex_exp :: "jstr \<Rightarrow> (int \<times> jstr) option" where
  "lex_exp s =
     (case s of
        c # cs \<Rightarrow>
          if c = 101 \<or> c = 69 then
            (let (neg, r) = (case cs of
                               [] \<Rightarrow> (False, cs)
                             | d # ds \<Rightarrow> if d = 45 then (True, ds)
                                        else if d = 43 then (False, ds) else (False, cs));
                 es = takeWhile is_digit r
             in if es = [] then None
                else Some ((if neg then - int (digits_val es) else int (digits_val es)),
                           dropWhile is_digit r))
          else Some (0, s)
      | [] \<Rightarrow> Some (0, s))"

definition pow10 :: "int \<Rightarrow> rat" where
  "pow10 e = (if 0 \<le> e then 10 ^ nat e else 1 / 10 ^ nat (- e))"

definition lex_number :: "jstr \<Rightarrow> (rat \<times> jstr) option" where
  "lex_number s =
     (let (neg, r0) = (case s of [] \<Rightarrow> (False, s) | c # cs \<Rightarrow> if c = 45 then (True, cs) else (False, s))
      in case lex_int r0 of
           None \<Rightarrow> None
         | Some (n, r1) \<Rightarrow>
             (case lex_frac r1 of
                None \<Rightarrow> None
              | Some (f, r2) \<Rightarrow>
                  (case lex_exp r2 of
                     None \<Rightarrow> None
                   | Some (e, r3) \<Rightarrow>
                       Some ((if neg then - 1 else 1) * (of_nat n + f) * pow10 e, r3))))"

text \<open>
  Strings, read after the opening quote: any code unit from 32 on except the quote (34) and
  the backslash (92); the escapes \<open>\" \\ \/ \b \f \n \r \t\<close> and \<open>\uXXXX\<close>.
\<close>

definition hex_val :: "nat \<Rightarrow> nat option" where
  "hex_val c =
     (if 48 \<le> c \<and> c \<le> 57 then Some (c - 48)
      else if 65 \<le> c \<and> c \<le> 70 then Some (c - 55)
      else if 97 \<le> c \<and> c \<le> 102 then Some (c - 87)
      else None)"

definition escape_unit :: "nat \<Rightarrow> nat option" where
  "escape_unit c =
     (if c = 34 then Some 34 else if c = 92 then Some 92 else if c = 47 then Some 47
      else if c = 98 then Some 8 else if c = 102 then Some 12 else if c = 110 then Some 10
      else if c = 114 then Some 13 else if c = 116 then Some 9 else None)"

fun lex_string :: "jstr \<Rightarrow> jstr \<Rightarrow> (jstr \<times> jstr) option" where
  "lex_string acc [] = None"
| "lex_string acc (c # cs) =
     (if c = 34 then Some (rev acc, cs)
      else if c = 92 then
        (case cs of
           [] \<Rightarrow> None
         | e # es \<Rightarrow>
             if e = 117 then
               (case es of
                  h1 # h2 # h3 # h4 # r \<Rightarrow>
                    (case (hex_val h1, hex_val h2, hex_val h3, hex_val h4) of
                       (Some a, Some b, Some c', Some d) \<Rightarrow>
                         lex_string ((4096 * a + 256 * b + 16 * c' + d) # acc) r
                     | _ \<Rightarrow> None)
                | _ \<Rightarrow> None)
             else (case escape_unit e of None \<Rightarrow> None | Some u \<Rightarrow> lex_string (u # acc) es))
      else if c < 32 then None
      else lex_string (c # acc) cs)"

text \<open>
  Values. \<open>parse_elements\<close> reads the elements of an array after its first bracket,
  \<open>parse_members\<close> the members of an object after its first brace. The recursion carries
  fuel, and the length of the text plus one is always enough of it: a value without parts
  needs one unit, an array or an object one unit more than its elements, and the elements
  one unit more than the greatest need among them, while each of these steps is paid for
  by a bracket, a brace or a comma of the text.
\<close>

fun parse_value :: "nat \<Rightarrow> jstr \<Rightarrow> (json \<times> jstr) option"
  and parse_elements :: "nat \<Rightarrow> json list \<Rightarrow> jstr \<Rightarrow> (json \<times> jstr) option"
  and parse_members :: "nat \<Rightarrow> (jstr \<times> json) list \<Rightarrow> jstr \<Rightarrow> (json \<times> jstr) option"
where
  "parse_value 0 s = None"
| "parse_value (Suc n) s =
     (case skip_ws s of
        [] \<Rightarrow> None
      | c # cs \<Rightarrow>
          if c = 91 then
            (case skip_ws cs of
               [] \<Rightarrow> None
             | d # ds \<Rightarrow> if d = 93 then Some (JArr [], ds) else parse_elements n [] cs)
          else if c = 123 then
            (case skip_ws cs of
               [] \<Rightarrow> None
             | d # ds \<Rightarrow> if d = 125 then Some (JObj [], ds) else parse_members n [] cs)
          else if c = 34 then
            (case lex_string [] cs of None \<Rightarrow> None | Some (t, r) \<Rightarrow> Some (JStr t, r))
          else if prefix (str ''true'') (c # cs) then Some (JBool True, drop 4 (c # cs))
          else if prefix (str ''false'') (c # cs) then Some (JBool False, drop 5 (c # cs))
          else if prefix (str ''null'') (c # cs) then Some (JNull, drop 4 (c # cs))
          else (case lex_number (c # cs) of None \<Rightarrow> None | Some (x, r) \<Rightarrow> Some (JNum x, r)))"
| "parse_elements 0 acc s = None"
| "parse_elements (Suc n) acc s =
     (case parse_value n s of
        None \<Rightarrow> None
      | Some (v, r) \<Rightarrow>
          (case skip_ws r of
             [] \<Rightarrow> None
           | d # ds \<Rightarrow>
               if d = 44 then parse_elements n (acc @ [v]) ds
               else if d = 93 then Some (JArr (acc @ [v]), ds)
               else None))"
| "parse_members 0 acc s = None"
| "parse_members (Suc n) acc s =
     (case skip_ws s of
        [] \<Rightarrow> None
      | q # qs \<Rightarrow>
          if q = 34 then
            (case lex_string [] qs of
               None \<Rightarrow> None
             | Some (k, r0) \<Rightarrow>
                 (case skip_ws r0 of
                    [] \<Rightarrow> None
                  | col # r1 \<Rightarrow>
                      if col = 58 then
                        (case parse_value n r1 of
                           None \<Rightarrow> None
                         | Some (v, r) \<Rightarrow>
                             (case skip_ws r of
                                [] \<Rightarrow> None
                              | d # ds \<Rightarrow>
                                  if d = 44 then parse_members n (acc @ [(k, v)]) ds
                                  else if d = 125 then Some (JObj (acc @ [(k, v)]), ds)
                                  else None))
                      else None))
          else None)"

text \<open>
  \<open>JSON.parse(text)\<close>: a JSON text is one value with whitespace around it. The whitespace at
  both ends is dropped and the value has to be the whole of what remains. \<open>None\<close> is the
  \<open>SyntaxError\<close>.
\<close>

definition json_trim :: "jstr \<Rightarrow> jstr" where
  "json_trim s = rev (dropWhile is_json_ws (rev (dropWhile is_json_ws s)))"

definition JSON_parse :: "jstr \<Rightarrow> json option" where
  "JSON_parse s =
     (let t = json_trim s
      in case parse_value (Suc (length t)) t of
           Some (v, []) \<Rightarrow> Some v
         | _ \<Rightarrow> None)"

section \<open>The parse-fallback chain\<close>

text \<open>
  The white space of \<open>String.prototype.trim\<close> and of the class \<open>\s\<close>: the ECMAScript
  WhiteSpace and LineTerminator code points.
\<close>

definition is_js_ws :: "nat \<Rightarrow> bool" where
  "is_js_ws c =
     ((9 \<le> c \<and> c \<le> 13) \<or> c = 32 \<or> c = 160 \<or> c = 5760 \<or> (8192 \<le> c \<and> c \<le> 8202) \<or>
      c = 8232 \<or> c = 8233 \<or> c = 8239 \<or> c = 8287 \<or> c = 12288 \<or> c = 65279)"

definition trim :: "jstr \<Rightarrow> jstr" where
  "trim s = rev (dropWhile is_js_ws (rev (dropWhile is_js_ws s)))"

text \<open>\<open>s.replace(/^\uFEFF/, '')\<close>: a leading byte order mark is dropped.\<close>

definition strip_bom :: "jstr \<Rightarrow> jstr" where
  "strip_bom s = (case s of [] \<Rightarrow> [] | c # cs \<Rightarrow> if c = 65279 then cs else s)"

definition fence :: jstr where
  "fence = [96, 96, 96]"

text \<open>
  \<open>s.replace(/^```(?:json)?\s*\n?/i, '')\<close>: at the start of the text, three backquotes, then
  the word json in either case if it is there, then all the white space that follows (the
  greedy \<open>\s*\<close> leaves no line feed to the \<open>\n?\<close> behind it).
\<close>

definition strip_open_fence :: "jstr \<Rightarrow> jstr" where
  "strip_open_fence s =
     (if prefix fence s then
        (let r = drop 3 s;
             r' = (if toLowerCase (take 4 r) = str ''json'' then drop 4 r else r)
         in dropWhile is_js_ws r')
      else s)"

text \<open>
  \<open>s.replace(/\n?```\s*$/i, '')\<close>: the leftmost place from which the rest of the text is an
  optional line feed, three backquotes and white space up to the end; the text is cut there.
\<close>

definition fence_tail :: "jstr \<Rightarrow> bool" where
  "fence_tail s = (prefix fence s \<and> list_all is_js_ws (drop 3 s))"

definition close_here :: "jstr \<Rightarrow> bool" where
  "close_here s = (case s of [] \<Rightarrow> False | c # cs \<Rightarrow> if c = 10 then fence_tail cs else fence_tail s)"

fun strip_close_fence :: "jstr \<Rightarrow> jstr" where
  "strip_close_fence [] = []"
| "strip_close_fence (c # cs) = (if close_here (c # cs) then [] else c # strip_close_fence cs)"

text \<open>
  \<open>content.match(/\[\s*\{[\s\S]*\}\s*\]/)\<close>: the match starts at the leftmost bracket that is
  followed by white space and a brace, and the greedy \<open>[\s\S]*\<close> carries it to the last brace
  that is followed by white space and a bracket. \<open>None\<close> when there is no match.
\<close>

definition open_len :: "jstr \<Rightarrow> nat option" where
  "open_len s =
     (case s of
        [] \<Rightarrow> None
      | c # cs \<Rightarrow>
          if c = 91 then
            (case dropWhile is_js_ws cs of
               [] \<Rightarrow> None
             | d # ds \<Rightarrow> if d = 123 then Some (length (takeWhile is_js_ws cs) + 2) else None)
          else None)"

definition shut_len :: "jstr \<Rightarrow> nat option" where
  "shut_len s =
     (case s of
        [] \<Rightarrow> None
      | c # cs \<Rightarrow>
          if c = 125 then
            (case dropWhile is_js_ws cs of
               [] \<Rightarrow> None
             | d # ds \<Rightarrow> if d = 93 then Some (length (takeWhile is_js_ws cs) + 2) else None)
          else None)"

text \<open>The end (as a length) of the last closing \<open>} ]\<close> in \<open>s\<close>, if there is one.\<close>

fun last_shut :: "jstr \<Rightarrow> nat option" where
  "last_shut [] = None"
| "last_shut (c # cs) =
     (case last_shut cs of
        Some k \<Rightarrow> Some (Suc k)
      | None \<Rightarrow> shut_len (c # cs))"

fun match_array :: "jstr \<Rightarrow> jstr option" where
  "match_array [] = None"
| "match_array (c # cs) =
     (case open_len (c # cs) of
        Some k \<Rightarrow>
          (case last_shut (drop k (c # cs)) of
             Some m \<Rightarrow> Some (take (k + m) (c # cs))
           | None \<Rightarrow> match_array cs)
      | None \<Rightarrow> match_array cs)"

text \<open>\<open>indexOf\<close> and \<open>lastIndexOf\<close> of one code unit; \<open>None\<close> is the result -1.\<close>

fun indexOf :: "jstr \<Rightarrow> nat \<Rightarrow> nat option" where
  "indexOf [] c = None"
| "indexOf (x # xs) c = (if x = c then Some 0 else map_option Suc (indexOf xs c))"

fun lastIndexOf :: "jstr \<Rightarrow> nat \<Rightarrow> nat option" where
  "lastIndexOf [] c = None"
| "lastIndexOf (x # xs) c =
     (case lastIndexOf xs c of
        Some k \<Rightarrow> Some (Suc k)
      | None \<Rightarrow> if x = c then Some 0 else None)"

text \<open>
  The four strategies of \<open>parseJSONResponse\<close>. Each is a \<open>try\<close> block that returns the parsed
  value when it is an array and otherwise, or when anything in it throws, hands over to the
  next one: \<open>None\<close> stands for "go on".
\<close>

definition as_array :: "json option \<Rightarrow> json list option" where
  "as_array r = (case r of Some (JArr xs) \<Rightarrow> Some xs | _ \<Rightarrow> None)"

definition strategy1 :: "jstr \<Rightarrow> json list option" where
  "strategy1 content = as_array (JSON_parse content)"

definition clean :: "jstr \<Rightarrow> jstr" where
  "clean content = trim (strip_close_fence (strip_open_fence (strip_bom (trim content))))"

definition strategy2 :: "jstr \<Rightarrow> json list option" where
  "strategy2 content = as_array (JSON_parse (clean content))"

definition strategy3 :: "jstr \<Rightarrow> json list option" where
  "strategy3 content =
     (case match_array content of
        Some m \<Rightarrow> as_array (JSON_parse m)
      | None \<Rightarrow> None)"

definition strategy4 :: "jstr \<Rightarrow> json list option" where
  "strategy4 content =
     (case (indexOf content 91, lastIndexOf content 93) of
        (Some firstBracket, Some lastBracket) \<Rightarrow>
          if lastBracket > firstBracket
          then as_array (JSON_parse (take (lastBracket + 1 - firstBracket) (drop firstBracket content)))
          else None
      | _ \<Rightarrow> None)"

definition parseJSONResponse :: "jstr \<Rightarrow> json list option" where
  "parseJSONResponse content =
     (case strategy1 content of
        Some xs \<Rightarrow> Some xs
      | None \<Rightarrow>
          (case strategy2 content of
             Some xs \<Rightarrow> Some xs
           | None \<Rightarrow>
               (case strategy3 content of
                  Some xs \<Rightarrow> Some xs
                | None \<Rightarrow> strategy4 content)))"

section \<open>Reading parsed JSON the way JavaScript does\<close>

text \<open>
  What the model takes from the JavaScript platform as given: \<open>numstr\<close> is the text
  \<open>String(x)\<close> gives for a number, \<open>date_parse\<close> the instant (in milliseconds since the epoch)
  that \<open>new Date(text)\<close> reads from a text, \<open>None\<close> for an invalid date, \<open>uuid k\<close> the
  k-th identifier that \<open>uuidv4()\<close> hands out during a call, and \<open>systemPrompt\<close> the prompt
  template \<open>getQuestionGenerationPrompt\<close>, whose wording plays no part here. The local time
  zone is given by two offsets from UTC, in milliseconds: \<open>tz_offset t\<close> is the one in force at
  the instant \<open>t\<close>, and \<open>tz_offset_local l\<close> the one in force when the local clock shows \<open>l\<close>.
\<close>

record platform =
  numstr :: "rat \<Rightarrow> jstr"
  date_parse :: "jstr \<Rightarrow> int option"
  uuid :: "nat \<Rightarrow> jstr"
  systemPrompt :: "jstr \<Rightarrow> jstr"
  tz_offset :: "int \<Rightarrow> int"
  tz_offset_local :: "int \<Rightarrow> int"

text \<open>
  \<open>v.k\<close> for a parsed value \<open>v\<close> other than \<open>null\<close> and one of the property names the
  program reads (none of them is a built-in property of strings, arrays or numbers);
  \<open>None\<close> is \<open>undefined\<close>. Reading a property of \<open>null\<close> throws a \<open>TypeError\<close>: the
  callers test for \<open>JNull\<close> first.
\<close>

definition get_prop :: "json \<Rightarrow> jstr \<Rightarrow> json option" where
  "get_prop v k = (case v of JObj kvs \<Rightarrow> map_of (rev kvs) k | _ \<Rightarrow> None)"

text \<open>Truthiness; \<open>None\<close> is \<open>undefined\<close>.\<close>

definition truthy :: "json option \<Rightarrow> bool" where
  "truthy v =
     (case v of
        None \<Rightarrow> False
      | Some JNull \<Rightarrow> False
      | Some (JBool b) \<Rightarrow> b
      | Some (JNum x) \<Rightarrow> x \<noteq> 0
      | Some (JStr t) \<Rightarrow> t \<noteq> []
      | Some _ \<Rightarrow> True)"

text \<open>
  \<open>String(v)\<close>. An array is joined with commas, \<open>null\<close> elements giving the empty text. An
  object gives \<open>[object Object]\<close>, unless it has a member \<open>toString\<close> of its own: that member
  is not a function, \<open>valueOf\<close> does not give a primitive either, and the conversion throws
  a \<open>TypeError\<close>, which is \<open>None\<close> here.
\<close>

fun js_String :: "platform \<Rightarrow> json \<Rightarrow> jstr option"
  and js_join :: "platform \<Rightarrow> json list \<Rightarrow> jstr option"
where
  "js_String p JNull = Some (str ''null'')"
| "js_String p (JBool b) = Some (if b then str ''true'' else str ''false'')"
| "js_String p (JNum x) = Some (numstr p x)"
| "js_String p (JStr t) = Some t"
| "js_String p (JArr xs) = js_join p xs"
| "js_String p (JObj kvs) =
     (if str ''toString'' \<in> set (map fst kvs) then None else Some (str ''[object Object]''))"
| "js_join p [] = Some []"
| "js_join p (x # xs) =
     (case (if x = JNull then Some [] else js_String p x) of
        None \<Rightarrow> None
      | Some a \<Rightarrow>
          if xs = [] then Some a
          else (case js_join p xs of None \<Rightarrow> None | Some b \<Rightarrow> Some (a @ [44] @ b)))"

text \<open>\<open>String(v || d)\<close> and \<open>v ? String(v) : undefined\<close>; \<open>None\<close> is a thrown \<open>TypeError\<close>.\<close>

definition string_or :: "platform \<Rightarrow> json option \<Rightarrow> jstr \<Rightarrow> jstr option" where
  "string_or p v d =
     (case v of
        None \<Rightarrow> Some d
      | Some x \<Rightarrow> if truthy v then js_String p x else Some d)"

definition string_if :: "platform \<Rightarrow> json option \<Rightarrow> jstr option option" where
  "string_if p v =
     (case v of
        None \<Rightarrow> Some None
      | Some x \<Rightarrow> if truthy v then map_option Some (js_String p x) else Some None)"

text \<open>A list of results that may each have thrown: the first throw ends it.\<close>

fun sequence :: "'a option list \<Rightarrow> 'a list option" where
  "sequence [] = Some []"
| "sequence (x # xs) =
     (case x of
        None \<Rightarrow> None
      | Some a \<Rightarrow> (case sequence xs of None \<Rightarrow> None | Some as \<Rightarrow> Some (a # as)))"

section \<open>The testimony question generator\<close>

record CrossExamQuestion =
  qid :: jstr
  question :: jstr
  category :: jstr
  difficulty :: jstr
  suggestedApproach :: "jstr option"
  weakPoint :: "jstr option"
  followUpQuestions :: "jstr list option"
  documentReference :: "jstr option"

definition valid_categories :: "jstr list" where
  "valid_categories =
     [str ''timeline'', str ''credibility'', str ''inconsistency'', str ''foundation'',
      str ''impeachment'', str ''general'']"

definition validateCategory :: "jstr \<Rightarrow> jstr" where
  "validateCategory c = (if c \<in> set valid_categories then c else str ''general'')"

definition valid_difficulties :: "jstr list" where
  "valid_difficulties = [str ''easy'', str ''medium'', str ''hard'']"

definition validateDifficulty :: "jstr \<Rightarrow> jstr" where
  "validateDifficulty d = (if d \<in> set valid_difficulties then d else str ''medium'')"

text \<open>
  The callback of \<open>questionsData.slice(0, 20).map(...)\<close> on one element \<open>q\<close>, with the
  identifier \<open>i\<close> drawn for it. \<open>None\<close>: the callback throws (a property of \<open>null\<close> is read,
  or a conversion to a string throws); the fields are computed in the order of the object
  literal and the first throw ends the callback.
\<close>

definition follow_ups :: "platform \<Rightarrow> json option \<Rightarrow> jstr list option option" where
  "follow_ups p v =
     (case v of
        Some (JArr fs) \<Rightarrow> map_option Some (sequence (map (js_String p) fs))
      | _ \<Rightarrow> Some None)"

definition mk_question :: "platform \<Rightarrow> jstr \<Rightarrow> json \<Rightarrow> CrossExamQuestion option" where
  "mk_question p i q =
     (if q = JNull then None
      else
        Option.bind (string_or p (get_prop q (str ''question'')) (str ''Question not available'')) (\<lambda>qu.
        Option.bind (string_or p (get_prop q (str ''category'')) (str ''general'')) (\<lambda>ca.
        Option.bind (string_or p (get_prop q (str ''difficulty'')) (str ''medium'')) (\<lambda>di.
        Option.bind (string_if p (get_prop q (str ''suggestedApproach''))) (\<lambda>sa.
        Option.bind (string_if p (get_prop q (str ''weakPoint''))) (\<lambda>wp.
        Option.bind (follow_ups p (get_prop q (str ''followUpQuestions''))) (\<lambda>fu.
        Option.bind (string_if p (get_prop q (str ''documentReference''))) (\<lambda>dr.
          Some \<lparr>qid = i, question = qu, category = validateCategory ca,
                difficulty = validateDifficulty di, suggestedApproach = sa, weakPoint = wp,
                followUpQuestions = fu, documentReference = dr\<rparr>))))))))"

text \<open>
  The \<open>map\<close> itself, from the k-th identifier on: the questions, or \<open>None\<close> when a callback
  threw, and the number of identifiers drawn by then.
\<close>

fun map_questions :: "platform \<Rightarrow> nat \<Rightarrow> json list \<Rightarrow> CrossExamQuestion list option \<times> nat" where
  "map_questions p k [] = (Some [], k)"
| "map_questions p k (q # qs) =
     (case mk_question p (uuid p k) q of
        None \<Rightarrow> (None, Suc k)
      | Some x \<Rightarrow>
          (case map_questions p (Suc k) qs of
             (None, k') \<Rightarrow> (None, k')
           | (Some xs, k') \<Rightarrow> (Some (x # xs), k')))"

record doc_in =
  doc_name :: jstr
  doc_content :: "jstr option"

text \<open>\<open>xs.join(sep)\<close> on strings.\<close>

fun join :: "jstr \<Rightarrow> jstr list \<Rightarrow> jstr" where
  "join sep [] = []"
| "join sep [x] = x"
| "join sep (x # y # ys) = x @ sep @ join sep (y # ys)"

text \<open>
  \<open>generateFallbackQuestions\<close>: the static set. The entries are written with an empty
  identifier; \<open>assign_ids\<close> gives the i-th entry the identifier drawn for it.
\<close>

definition assign_ids :: "platform \<Rightarrow> nat \<Rightarrow> CrossExamQuestion list \<Rightarrow> CrossExamQuestion list" where
  "assign_ids p k qs = map (\<lambda>(i, q). q\<lparr>qid := uuid p (k + i)\<rparr>) (zip [0..<length qs] qs)"

definition fallback_entries :: "jstr \<Rightarrow> CrossExamQuestion list" where
  "fallback_entries docNames =
     [
      \<lparr>qid = [],
         question = str ''You've reviewed documents related to this case. Can you tell us exactly when you first became aware of the events described?'',
         category = str ''timeline'', difficulty = str ''medium'',
         suggestedApproach = Some (str ''Be specific about dates and times. If uncertain, say so.''),
         weakPoint = Some (str ''Timeline inconsistencies''),
         followUpQuestions = Some [str ''What were you doing at that time?'', str ''Who else was present?''],
         documentReference = Some docNames\<rparr>,
      \<lparr>qid = [],
         question = str ''Looking at the documents you've reviewed, can you identify any statements that you now believe may have been inaccurate?'',
         category = str ''credibility'', difficulty = str ''hard'',
         suggestedApproach = Some (str ''If there are inaccuracies, acknowledge them. Honesty builds credibility.''),
         weakPoint = Some (str ''Prior inconsistent statements''),
         followUpQuestions = Some [str ''Why didn't you correct this earlier?'', str ''What other statements might need revision?''],
         documentReference = Some docNames\<rparr>,
      \<lparr>qid = [],
         question = str ''You mentioned specific details in your statement. How can you be so certain about these details after all this time?'',
         category = str ''credibility'', difficulty = str ''medium'',
         suggestedApproach = Some (str ''Explain what makes certain memories stand out.''),
         weakPoint = Some (str ''Memory reliability''),
         followUpQuestions = Some [str ''Did you take notes at the time?'', str ''Have you discussed these events with anyone?''],
         documentReference = Some docNames\<rparr>,
      \<lparr>qid = [],
         question = str ''Based on the documents in this case, there appear to be gaps in the timeline. Can you explain what happened during these periods?'',
         category = str ''timeline'', difficulty = str ''medium'',
         suggestedApproach = Some (str ''If you don't know, say so. Don't speculate.''),
         weakPoint = Some (str ''Incomplete knowledge''),
         followUpQuestions = Some [str ''Were you present during this time?'', str ''Who might have information about this period?''],
         documentReference = Some docNames\<rparr>,
      \<lparr>qid = [],
         question = str ''The documents suggest a particular sequence of events. Do you agree with that sequence, or do you recall it differently?'',
         category = str ''inconsistency'', difficulty = str ''hard'',
         suggestedApproach = Some (str ''If you disagree, explain specifically what you recall differently and why.''),
         weakPoint = Some (str ''Contradicting documentary evidence''),
         followUpQuestions = Some [str ''What specifically do you recall differently?'', str ''Why should your memory be trusted over the documents?''],
         documentReference = Some docNames\<rparr>,
      \<lparr>qid = [],
         question = str ''Were you under any stress or distraction at the time of the events described in these documents?'',
         category = str ''foundation'', difficulty = str ''medium'',
         suggestedApproach = Some (str ''Acknowledge any factors that might have affected your perception.''),
         weakPoint = Some (str ''Impaired observation''),
         followUpQuestions = Some [str ''How might that have affected what you observed?'', str ''Were you taking any medications?''],
         documentReference = Some docNames\<rparr>,
      \<lparr>qid = [],
         question = str ''Can you explain your role in the events documented in the case materials?'',
         category = str ''foundation'', difficulty = str ''easy'',
         suggestedApproach = Some (str ''Clearly explain your involvement and the basis for your knowledge.''),
         weakPoint = Some (str ''Limited firsthand knowledge''),
         followUpQuestions = Some [str ''Were you directly involved?'', str ''How do you have knowledge of what you're testifying about?''],
         documentReference = Some docNames\<rparr>,
      \<lparr>qid = [],
         question = str ''The documents reference specific communications. Did you keep copies of all relevant communications?'',
         category = str ''foundation'', difficulty = str ''medium'',
         suggestedApproach = Some (str ''Explain your document retention practices honestly.''),
         weakPoint = Some (str ''Missing evidence''),
         followUpQuestions = Some [str ''Why didn't you keep copies?'', str ''What happened to those communications?''],
         documentReference = Some docNames\<rparr>,
      \<lparr>qid = [],
         question = str ''Is there anything in these documents that you believe is false or misleading?'',
         category = str ''inconsistency'', difficulty = str ''hard'',
         suggestedApproach = Some (str ''If you believe something is false, explain specifically what and why.''),
         weakPoint = Some (str ''Challenging documentary evidence''),
         followUpQuestions = Some [str ''How do you know it's false?'', str ''Do you have evidence to support your claim?''],
         documentReference = Some docNames\<rparr>,
      \<lparr>qid = [],
         question = str ''Who else was present that could corroborate your account?'',
         category = str ''foundation'', difficulty = str ''medium'',
         suggestedApproach = Some (str ''Identify other witnesses who can support your testimony.''),
         weakPoint = Some (str ''Lack of corroboration''),
         followUpQuestions = Some [str ''Have you spoken with them about this case?'', str ''Would they agree with your version?''],
         documentReference = Some docNames\<rparr>,
      \<lparr>qid = [],
         question = str ''How soon after the events did you first document your recollection?'',
         category = str ''timeline'', difficulty = str ''medium'',
         suggestedApproach = Some (str ''Explain when and how you recorded your memories.''),
         weakPoint = Some (str ''Delayed documentation affects reliability''),
         followUpQuestions = Some [str ''Why did you wait?'', str ''What prompted you to finally document it?''],
         documentReference = Some docNames\<rparr>,
      \<lparr>qid = [],
         question = str ''Have you reviewed these documents with anyone before today's testimony?'',
         category = str ''credibility'', difficulty = str ''easy'',
         suggestedApproach = Some (str ''Be honest about document review. It's normal to prepare.''),
         weakPoint = Some (str ''Potential for coached testimony''),
         followUpQuestions = Some [str ''Who did you review them with?'', str ''Did anyone point out specific things you should remember?''],
         documentReference = Some docNames\<rparr>,
      \<lparr>qid = [],
         question = str ''Is there any information relevant to this case that is NOT contained in these documents?'',
         category = str ''foundation'', difficulty = str ''hard'',
         suggestedApproach = Some (str ''Disclose any relevant information not in the documents.''),
         weakPoint = Some (str ''Incomplete documentary record''),
         followUpQuestions = Some [str ''Why wasn't that documented?'', str ''Who else knows about this?''],
         documentReference = Some docNames\<rparr>,
      \<lparr>qid = [],
         question = str ''Looking at the specific details in the documents, how do you explain any discrepancies between what's written and what you're testifying to today?'',
         category = str ''inconsistency'', difficulty = str ''hard'',
         suggestedApproach = Some (str ''Address discrepancies directly.''),
         weakPoint = Some (str ''Documentary contradictions''),
         followUpQuestions = Some [str ''Which version is correct?'', str ''Were you truthful then or now?''],
         documentReference = Some docNames\<rparr>,
      \<lparr>qid = [],
         question = str ''Were you consulted before any of the actions described in the documents occurred?'',
         category = str ''foundation'', difficulty = str ''medium'',
         suggestedApproach = Some (str ''Be clear about your level of involvement.''),
         weakPoint = Some (str ''Limited involvement or knowledge''),
         followUpQuestions = Some [str ''Did you have any input?'', str ''Did you express any objections?''],
         documentReference = Some docNames\<rparr>,
      \<lparr>qid = [],
         question = str ''How did you prepare for your testimony today?'',
         category = str ''general'', difficulty = str ''easy'',
         suggestedApproach = Some (str ''Be honest about preparation. It's normal to review documents with counsel.''),
         weakPoint = Some (str ''May suggest coaching''),
         followUpQuestions = Some [str ''Who did you meet with to prepare?'', str ''How many times did you meet?''],
         documentReference = Some (str ''General Cross-Examination'')\<rparr>,
      \<lparr>qid = [],
         question = str ''Are you being compensated in any way for your testimony, or do you have any financial interest in the outcome?'',
         category = str ''general'', difficulty = str ''easy'',
         suggestedApproach = Some (str ''Answer directly.''),
         weakPoint = Some (str ''Potential bias''),
         followUpQuestions = Some [str ''How much are you being paid?'', str ''Does compensation depend on the outcome?''],
         documentReference = Some (str ''General Cross-Examination'')\<rparr>,
      \<lparr>qid = [],
         question = str ''What is your relationship to the parties in this case?'',
         category = str ''general'', difficulty = str ''easy'',
         suggestedApproach = Some (str ''Describe relationships factually without editorializing.''),
         weakPoint = Some (str ''Potential bias based on relationships''),
         followUpQuestions = Some [str ''How long have you known them?'', str ''Have you had any conflicts with them?''],
         documentReference = Some (str ''General Cross-Examination'')\<rparr>,
      \<lparr>qid = [],
         question = str ''How would you describe your memory in general? Is there anything about your testimony today that you're not completely certain about?'',
         category = str ''general'', difficulty = str ''medium'',
         suggestedApproach = Some (str ''Be honest about your memory capabilities.''),
         weakPoint = Some (str ''Self-assessment of reliability''),
         followUpQuestions = Some [str ''What specifically are you uncertain about?'', str ''Have you forgotten important details before?''],
         documentReference = Some (str ''General Cross-Examination'')\<rparr>,
      \<lparr>qid = [],
         question = str ''Have you ever given testimony that was later found to be inaccurate or that you needed to correct?'',
         category = str ''general'', difficulty = str ''hard'',
         suggestedApproach = Some (str ''Answer honestly. If yes, explain the circumstances.''),
         weakPoint = Some (str ''Prior credibility issues''),
         followUpQuestions = Some [str ''What were the circumstances?'', str ''How did you discover the inaccuracy?''],
         documentReference = Some (str ''General Cross-Examination'')\<rparr>]"

definition generateFallbackQuestions :: "platform \<Rightarrow> nat \<Rightarrow> jstr \<Rightarrow> doc_in list \<Rightarrow> CrossExamQuestion list" where
  "generateFallbackQuestions p k witnessName documents =
     (let joined = join (str '', '') (map doc_name documents);
          docNames = (if joined = [] then str ''the documents'' else joined)
      in assign_ids p k (fallback_entries docNames))"

text \<open>
  The configuration \<open>DEMO_LIMITS\<close>. The numbers come from environment values when these are
  set, so each may be any integer (any number, for the price ceiling).
\<close>

record config =
  sessionHours :: int
  sessionPriceLimit :: rat
  pricePerThousandChars :: rat
  maxDocumentsPerSession :: int
  maxFileSize :: int

text \<open>The defaults: 24 hours, 5 dollars, 0.0005 dollars per thousand characters, 20 documents, 10 MB.\<close>

definition default_config :: config where
  "default_config =
     \<lparr>sessionHours = 24, sessionPriceLimit = 5, pricePerThousandChars = 1 / 2000,
      maxDocumentsPerSession = 20, maxFileSize = 10 * 1024 * 1024\<rparr>"

text \<open>
  The request body after \<open>request.json()\<close>: a missing field and an empty one are both falsy
  and both are the empty list here.
\<close>

record request_body =
  req_witnessName :: jstr
  req_caseName :: jstr
  req_documents :: "doc_in list"

text \<open>
  What \<open>chatCompletion\<close> does: it throws (the network call fails, the endpoint answers with
  an error status, or the body is not JSON), or it returns a response whose choices carry
  the texts given.
\<close>

datatype llm_result = Throws | Responds "jstr list"

text \<open>The responses of the route: an error body with its status, or the generated payload.\<close>

record generated =
  questions :: "CrossExamQuestion list"
  cost :: rat
  charsProcessed :: nat
  usedFallback :: bool

datatype response = Failure nat jstr | Success generated

definition documentContext :: "doc_in list \<Rightarrow> jstr" where
  "documentContext docs =
     join [10, 10]
       (map (\<lambda>d. str ''=== DOCUMENT: '' @ doc_name d @ str '' ==='' @ [10] @
                  (case doc_content d of
                     None \<Rightarrow> str ''[Content not available]''
                   | Some c \<Rightarrow> if c = [] then str ''[Content not available]'' else c) @
                  [10] @ str ''=== END DOCUMENT ==='') docs)"

definition userPrompt :: "request_body \<Rightarrow> jstr" where
  "userPrompt b =
     str ''Case: '' @ req_caseName b @ [10] @
     str ''Witness Name: '' @ req_witnessName b @ [10, 10] @
     str ''DOCUMENTS TO ANALYZE:'' @ [10] @
     documentContext (req_documents b) @ [10, 10] @
     str ''Generate exactly 20 cross-examination questions for the witness '' @ req_witnessName b @
     str ''.'' @ [10] @
     str ''Return ONLY a valid JSON array. No markdown formatting.''"

text \<open>
  The inner \<open>try\<close> block of the route: the questions read from the answer (none when the
  answer is empty, cannot be parsed or parses to an empty array), whether the \<open>catch\<close> ran,
  the cost, the characters processed and the number of identifiers drawn.
\<close>

text \<open>\<open>response.choices?.[0]?.message?.content || ''\<close>.\<close>

definition message_content :: "jstr list \<Rightarrow> jstr" where
  "message_content choices = (case choices of [] \<Rightarrow> [] | c # cs \<Rightarrow> c)"

definition ask_llm ::
  "platform \<Rightarrow> config \<Rightarrow> request_body \<Rightarrow> llm_result \<Rightarrow> CrossExamQuestion list \<times> bool \<times> rat \<times> nat \<times> nat"
where
  "ask_llm p cfg b llm =
     (case llm of
        Throws \<Rightarrow> ([], True, 0, 0, 0)
      | Responds choices \<Rightarrow>
          (let content = message_content choices;
               chars = length (systemPrompt p (req_witnessName b) @ userPrompt b @ content);
               price = (of_nat chars / 1000) * pricePerThousandChars cfg
           in if content \<noteq> [] then
                (case parseJSONResponse content of
                   None \<Rightarrow> ([], False, price, chars, 0)
                 | Some questionsData \<Rightarrow>
                     if length questionsData > 0 then
                       (case map_questions p 0 (take 20 questionsData) of
                          (Some qs, k) \<Rightarrow> (qs, False, price, chars, k)
                        | (None, k) \<Rightarrow> ([], True, price, chars, k))
                     else ([], False, price, chars, 0))
              else ([], False, price, chars, 0)))"

text \<open>
  \<open>POST /api/testimony/generate-questions\<close>. The request is \<open>None\<close> when its body cannot be
  read as JSON: the outer \<open>catch\<close> answers 500.
\<close>

definition POST_generate_questions ::
  "platform \<Rightarrow> config \<Rightarrow> request_body option \<Rightarrow> llm_result \<Rightarrow> response"
where
  "POST_generate_questions p cfg request llm =
     (case request of
        None \<Rightarrow> Failure 500 (str ''Failed to generate questions'')
      | Some b \<Rightarrow>
          if req_witnessName b = [] \<or> req_caseName b = []
          then Failure 400 (str ''witnessName and caseName are required'')
          else if req_documents b = []
          then Failure 400 (str ''No documents provided. Please upload case materials first.'')
          else
            (case ask_llm p cfg b llm of
               (qs, caught, price, chars, k) \<Rightarrow>
                 if length qs = 0
                 then Success \<lparr>questions = generateFallbackQuestions p k (req_witnessName b) (req_documents b),
                                cost = price, charsProcessed = chars, usedFallback = True\<rparr>
                 else Success \<lparr>questions = qs, cost = price, charsProcessed = chars,
                                usedFallback = caught\<rparr>))"

section \<open>The usage ledger\<close>

text \<open>
  \<open>SessionStats\<close>. The two timestamps are instants in milliseconds since the epoch; the
  program keeps them as the ISO texts of \<open>toISOString\<close>, which \<open>new Date\<close> reads back to the
  same instant.
\<close>

record SessionStats =
  documentsUploaded :: int
  totalStorageUsed :: int
  sessionPrice :: rat
  sessionStartAt :: int
  sessionResetAt :: int

text \<open>
  What \<open>JSON.parse(stored) as SessionStats\<close> can be at run time: a record that this program
  wrote, or any other parsed JSON value (the cast checks nothing).
\<close>

datatype stats_value = Stats SessionStats | Foreign json

text \<open>
  A value of \<open>localStorage\<close> under the statistics key: a raw text, or the text that
  \<open>JSON.stringify\<close> makes of a value, kept as that value (\<open>JSON.parse\<close> gives it back).
\<close>

datatype blob = Raw jstr | Written stats_value

definition parse_blob :: "blob \<Rightarrow> stats_value option" where
  "parse_blob b = (case b of Raw t \<Rightarrow> map_option Foreign (JSON_parse t) | Written v \<Rightarrow> Some v)"

datatype js_error = RangeError | TypeError

text \<open>A \<open>Date\<close> holds a time value of at most 8.64e15 milliseconds either side of the epoch.\<close>

definition valid_time :: "int \<Rightarrow> bool" where
  "valid_time t = (- 8640000000000000 \<le> t \<and> t \<le> 8640000000000000)"

text \<open>
  The local wall-clock time of an instant, and the instant of a local wall-clock time
  (\<open>LocalTime\<close> and \<open>UTC\<close> of the language definition).
\<close>

definition local_time :: "platform \<Rightarrow> int \<Rightarrow> int" where
  "local_time p t = t + tz_offset p t"

definition utc_time :: "platform \<Rightarrow> int \<Rightarrow> int" where
  "utc_time p l = l - tz_offset_local p l"

text \<open>
  \<open>d.getHours()\<close> is the hour of the day that the local clock shows at the instant of \<open>d\<close>.
  \<open>d.setHours(h)\<close> keeps the local day, minutes, seconds and milliseconds of \<open>d\<close> and puts
  \<open>h\<close> hours in place of the hour, where \<open>h\<close> may be any whole number; the result is the
  instant of that local time.
\<close>

definition getHours :: "platform \<Rightarrow> int \<Rightarrow> int" where
  "getHours p t = (local_time p t div 3600000) mod 24"

definition setHours :: "platform \<Rightarrow> int \<Rightarrow> int \<Rightarrow> int" where
  "setHours p t h =
     (let l = local_time p t;
          day = l div 86400000;
          rest = l mod 3600000
      in utc_time p (day * 86400000 + (h * 3600000 + rest)))"

text \<open>
  \<open>getSessionResetTime(sessionHours)\<close> at the instant \<open>now\<close>: the hours are added to the hour
  of the local clock, and \<open>toISOString\<close> throws a \<open>RangeError\<close> when the result is not a valid
  time.
\<close>

definition add_hours :: "platform \<Rightarrow> int \<Rightarrow> int \<Rightarrow> int" where
  "add_hours p hours t = setHours p t (getHours p t + hours)"

definition getSessionResetTime :: "platform \<Rightarrow> int \<Rightarrow> int \<Rightarrow> js_error + int" where
  "getSessionResetTime p hours now =
     (let t = add_hours p hours now in if valid_time t then Inr t else Inl RangeError)"

text \<open>
  \<open>new Date(v)\<close> for a parsed value, as an instant; the inner \<open>None\<close> is the invalid date,
  the outer \<open>None\<close> a \<open>TypeError\<close> of the conversion of an object to a primitive.
  \<open>undefined\<close> gives the invalid date, \<open>null\<close> and the booleans their numbers, a number
  within the range of time values its whole part, a text what the platform reads from it,
  and an array or object what the platform reads from its conversion to a text.
\<close>

definition to_integer :: "rat \<Rightarrow> int" where
  "to_integer x = (if 0 \<le> x then \<lfloor>x\<rfloor> else \<lceil>x\<rceil>)"

definition to_date :: "platform \<Rightarrow> json option \<Rightarrow> int option option" where
  "to_date p v =
     (case v of
        None \<Rightarrow> Some None
      | Some JNull \<Rightarrow> Some (Some 0)
      | Some (JBool b) \<Rightarrow> Some (Some (if b then 1 else 0))
      | Some (JNum x) \<Rightarrow>
          Some (if - 8640000000000000 \<le> x \<and> x \<le> 8640000000000000 then Some (to_integer x) else None)
      | Some (JStr t) \<Rightarrow> Some (date_parse p t)
      | Some w \<Rightarrow> (case js_String p w of None \<Rightarrow> None | Some t \<Rightarrow> Some (date_parse p t)))"

text \<open>
  \<open>getSessionStats()\<close> at the instant \<open>now\<close> (the clock is read as one instant during the
  call). The argument is \<open>None\<close> where there is no \<open>window\<close>, and otherwise the value stored
  under the statistics key, if any. The result is what is returned or thrown, and the
  stored value afterwards. \<open>localStorage\<close> itself is taken not to throw.
\<close>

definition getSessionStats ::
  "platform \<Rightarrow> config \<Rightarrow> int \<Rightarrow> blob option option \<Rightarrow> (js_error + stats_value) \<times> blob option option"
where
  "getSessionStats p cfg now w =
     (case getSessionResetTime p (sessionHours cfg) now of
        Inl e \<Rightarrow> (Inl e, w)
      | Inr resetAt \<Rightarrow>
          (let defaultStats = \<lparr>documentsUploaded = 0, totalStorageUsed = 0, sessionPrice = 0,
                                sessionStartAt = now, sessionResetAt = resetAt\<rparr>;
               resetStats = \<lparr>documentsUploaded = 0, totalStorageUsed = 0, sessionPrice = 0,
                              sessionStartAt = now, sessionResetAt = resetAt\<rparr>
           in case w of
                None \<Rightarrow> (Inr (Stats defaultStats), w)
              | Some None \<Rightarrow> (Inr (Stats defaultStats), Some (Some (Written (Stats defaultStats))))
              | Some (Some stored) \<Rightarrow>
                  if stored = Raw [] then (Inr (Stats defaultStats), Some (Some (Written (Stats defaultStats))))
                  else
                    (case parse_blob stored of
                       None \<Rightarrow> (Inr (Stats defaultStats), w)
                     | Some (Stats st) \<Rightarrow>
                         if now \<ge> sessionResetAt st
                         then (Inr (Stats resetStats), Some (Some (Written (Stats resetStats))))
                         else (Inr (Stats st), w)
                     | Some (Foreign v) \<Rightarrow>
                         if v = JNull then (Inr (Stats defaultStats), w)
                         else
                           (case to_date p (get_prop v (str ''sessionResetAt'')) of
                              None \<Rightarrow> (Inr (Stats defaultStats), w)
                            | Some None \<Rightarrow> (Inr (Foreign v), w)
                            | Some (Some t) \<Rightarrow>
                                if now \<ge> t
                                then (Inr (Stats resetStats), Some (Some (Written (Stats resetStats))))
                                else (Inr (Foreign v), w)))))"

text \<open>
  A value that has the shape of \<open>SessionStats\<close>: a record of this program, or an object with
  three numbers and two texts under the five field names.
\<close>

definition is_num :: "json option \<Rightarrow> bool" where
  "is_num v = (case v of Some (JNum x) \<Rightarrow> True | _ \<Rightarrow> False)"

definition is_text :: "json option \<Rightarrow> bool" where
  "is_text v = (case v of Some (JStr t) \<Rightarrow> True | _ \<Rightarrow> False)"

definition well_formed_stats :: "stats_value \<Rightarrow> bool" where
  "well_formed_stats s =
     (case s of
        Stats st \<Rightarrow> True
      | Foreign v \<Rightarrow>
          is_num (get_prop v (str ''documentsUploaded'')) \<and>
          is_num (get_prop v (str ''totalStorageUsed'')) \<and>
          is_num (get_prop v (str ''sessionPrice'')) \<and>
          is_text (get_prop v (str ''sessionStartAt'')) \<and>
          is_text (get_prop v (str ''sessionResetAt'')))"

text \<open>
  \<open>incrementSessionPrice(price)\<close> reads the statistics, adds, and has
  \<open>updateSessionStats\<close> read them again and store \<open>{...current, sessionPrice: sum}\<close>. For a
  foreign value the sum and the spread are JavaScript's: \<open>sum_json\<close> is what
  \<open>JSON.stringify\<close> keeps of \<open>v + price\<close> (\<open>NaN\<close> becomes \<open>null\<close>), \<open>spread\<close> the own
  members of the value.
\<close>

function decimal :: "nat \<Rightarrow> jstr" where
  "decimal n = (if n < 10 then [48 + n] else decimal (n div 10) @ [48 + n mod 10])"
  by pat_completeness auto
termination
  by (relation "measure (\<lambda>n. n)") auto

declare decimal.simps [simp del]

definition sum_json :: "platform \<Rightarrow> json option \<Rightarrow> rat \<Rightarrow> json option" where
  "sum_json p v price =
     (case v of
        None \<Rightarrow> Some JNull
      | Some JNull \<Rightarrow> Some (JNum price)
      | Some (JBool b) \<Rightarrow> Some (JNum ((if b then 1 else 0) + price))
      | Some (JNum x) \<Rightarrow> Some (JNum (x + price))
      | Some (JStr t) \<Rightarrow> Some (JStr (t @ numstr p price))
      | Some w \<Rightarrow> map_option (\<lambda>t. JStr (t @ numstr p price)) (js_String p w))"

definition spread :: "json \<Rightarrow> (jstr \<times> json) list" where
  "spread v =
     (case v of
        JObj kvs \<Rightarrow> kvs
      | JArr xs \<Rightarrow> zip (map decimal [0..<length xs]) xs
      | JStr t \<Rightarrow> zip (map decimal [0..<length t]) (map (\<lambda>c. JStr [c]) t)
      | _ \<Rightarrow> [])"

definition with_price :: "platform \<Rightarrow> stats_value \<Rightarrow> rat \<Rightarrow> js_error + stats_value" where
  "with_price p stats price =
     (case stats of
        Stats st \<Rightarrow> Inr (Stats (st\<lparr>sessionPrice := sessionPrice st + price\<rparr>))
      | Foreign v \<Rightarrow>
          (case sum_json p (get_prop v (str ''sessionPrice'')) price of
             None \<Rightarrow> Inl TypeError
           | Some x \<Rightarrow> Inr (Foreign (JObj (spread v @ [(str ''sessionPrice'', x)])))))"

text \<open>
  The two reads happen at the same instant, and the second returns what the first returned
  (\<open>getSessionStats_again\<close> below); the sum and the spread are both taken from that value.
  The result is the stored value afterwards, or the error thrown.
\<close>

definition incrementSessionPrice ::
  "platform \<Rightarrow> config \<Rightarrow> int \<Rightarrow> rat \<Rightarrow> blob option \<Rightarrow> js_error + blob option"
where
  "incrementSessionPrice p cfg now price item =
     (case getSessionStats p cfg now (Some item) of
        (Inl e, w) \<Rightarrow> Inl e
      | (Inr stats, w) \<Rightarrow>
          (case with_price p stats price of
             Inl e \<Rightarrow> Inl e
           | Inr updated \<Rightarrow>
               (case getSessionStats p cfg now w of
                  (Inl e, w') \<Rightarrow> Inl e
                | (Inr current, w') \<Rightarrow> Inr (Some (Written updated)))))"

section \<open>Sessions and the browser store\<close>

datatype doc_status = Processing | Ready | Errored

text \<open>
  Modelled from the spec: the testimony \<open>Document\<close> and \<open>PracticeSession\<close> types
  (\<open>lib/types/testimony\<close> is not among the sources), with the fields the components read
  and write.
\<close>

record Document =
  td_id :: jstr
  td_name :: jstr
  td_type :: jstr
  td_size :: int
  td_uploadedAt :: int
  td_status :: doc_status
  td_content :: "jstr option"

record PracticeSession =
  ps_id :: jstr
  ps_witnessName :: jstr
  ps_caseName :: jstr
  ps_documents :: "Document list"
  ps_questions :: "CrossExamQuestion list"

text \<open>
  Modelled from the spec: the \<open>DepositionDocument\<close> and \<open>DepositionSession\<close> types
  (\<open>lib/types/deposition\<close> is not among the sources). What the route returns for questions,
  gaps, contradictions and analysis is stored as it arrives, so it is kept as JSON.
\<close>

record DepositionDocument =
  dd_id :: jstr
  dd_name :: jstr
  dd_type :: DocumentType
  dd_fileType :: jstr
  dd_size :: int
  dd_uploadedAt :: int
  dd_content :: jstr
  dd_status :: doc_status
  dd_pageCount :: nat
  dd_source :: jstr

record DepositionSession =
  ds_id :: jstr
  ds_deponentName :: jstr
  ds_caseName :: jstr
  ds_documents :: "DepositionDocument list"
  ds_questions :: "json list"
  ds_gaps :: "json list"
  ds_contradictions :: "json list"
  ds_analysis :: "json option"

text \<open>
  The browser store: the value under the statistics key, one persisted record per session
  identifier for each tool, and the value under \<open>wtp_current_deposition_session\<close>.
\<close>

record storage =
  stats_item :: "blob option"
  testimony_sessions :: "jstr \<Rightarrow> PracticeSession option"
  deposition_sessions :: "jstr \<Rightarrow> DepositionSession option"
  current_deposition :: "jstr option"

text \<open>
  Modelled from the spec: \<open>getSession\<close>, \<open>addDocument\<close>, \<open>updateSession\<close> (here with the
  documents it is called with), \<open>setQuestions\<close> and \<open>deleteSession\<close> of
  \<open>lib/storage/session-storage\<close>, which is not among the sources. "All mutators fail softly
  (return null) rather than throwing when the session id is unknown", and "persistence is a
  full-object serialize/deserialize on every write": what is returned is a new object.
\<close>

definition getSession :: "storage \<Rightarrow> jstr \<Rightarrow> PracticeSession option" where
  "getSession st i = testimony_sessions st i"

definition put_session :: "storage \<Rightarrow> PracticeSession \<Rightarrow> storage" where
  "put_session st s = st\<lparr>testimony_sessions := (testimony_sessions st)(ps_id s \<mapsto> s)\<rparr>"

definition addDocument :: "storage \<Rightarrow> jstr \<Rightarrow> Document \<Rightarrow> PracticeSession option \<times> storage" where
  "addDocument st i doc =
     (case getSession st i of
        None \<Rightarrow> (None, st)
      | Some s \<Rightarrow>
          (let s' = s\<lparr>ps_documents := ps_documents s @ [doc]\<rparr> in (Some s', put_session st s')))"

definition updateSession_documents ::
  "storage \<Rightarrow> jstr \<Rightarrow> Document list \<Rightarrow> PracticeSession option \<times> storage"
where
  "updateSession_documents st i docs =
     (case getSession st i of
        None \<Rightarrow> (None, st)
      | Some s \<Rightarrow> (let s' = s\<lparr>ps_documents := docs\<rparr> in (Some s', put_session st s')))"

definition setQuestions ::
  "storage \<Rightarrow> jstr \<Rightarrow> CrossExamQuestion list \<Rightarrow> PracticeSession option \<times> storage"
where
  "setQuestions st i qs =
     (case getSession st i of
        None \<Rightarrow> (None, st)
      | Some s \<Rightarrow> (let s' = s\<lparr>ps_questions := qs\<rparr> in (Some s', put_session st s')))"

definition deleteSession :: "storage \<Rightarrow> jstr \<Rightarrow> storage" where
  "deleteSession st i = st\<lparr>testimony_sessions := (testimony_sessions st)(i := None)\<rparr>"

text \<open>
  Modelled from the spec: \<open>addDepositionDocument\<close>, \<open>setDepositionQuestions\<close> and
  \<open>setAnalysisResults\<close> of \<open>lib/storage/deposition-storage\<close>, which is not among the sources;
  the same contract as above.
\<close>

definition put_deposition :: "storage \<Rightarrow> DepositionSession \<Rightarrow> storage" where
  "put_deposition st s = st\<lparr>deposition_sessions := (deposition_sessions st)(ds_id s \<mapsto> s)\<rparr>"

definition addDepositionDocument ::
  "storage \<Rightarrow> jstr \<Rightarrow> DepositionDocument \<Rightarrow> DepositionSession option \<times> storage"
where
  "addDepositionDocument st i doc =
     (case deposition_sessions st i of
        None \<Rightarrow> (None, st)
      | Some s \<Rightarrow>
          (let s' = s\<lparr>ds_documents := ds_documents s @ [doc]\<rparr> in (Some s', put_deposition st s')))"

definition setDepositionQuestions ::
  "storage \<Rightarrow> jstr \<Rightarrow> json list \<Rightarrow> DepositionSession option \<times> storage"
where
  "setDepositionQuestions st i qs =
     (case deposition_sessions st i of
        None \<Rightarrow> (None, st)
      | Some s \<Rightarrow> (let s' = s\<lparr>ds_questions := qs\<rparr> in (Some s', put_deposition st s')))"

definition setAnalysisResults ::
  "storage \<Rightarrow> jstr \<Rightarrow> json list \<Rightarrow> json list \<Rightarrow> json \<Rightarrow> DepositionSession option \<times> storage"
where
  "setAnalysisResults st i gaps contradictions analysis =
     (case deposition_sessions st i of
        None \<Rightarrow> (None, st)
      | Some s \<Rightarrow>
          (let s' = s\<lparr>ds_gaps := gaps, ds_contradictions := contradictions,
                       ds_analysis := Some analysis\<rparr>
           in (Some s', put_deposition st s')))"

section \<open>The two tools: state and handlers\<close>

datatype AppStep = Setup | Documents | Analysis | Questions | Outline | Practice | Review

datatype limit_kind = priceLimit | documentLimit

text \<open>
  A file of an upload, with what the browser makes of it: \<open>file_text\<close> is the result of
  \<open>FileReader.readAsText\<close> (\<open>None\<close>: the read fails), \<open>file_extract\<close> the result of
  \<open>processDocument\<close> (the message of the error it throws, or the text and the page count).
\<close>

record upload_file =
  file_name :: jstr
  file_type :: jstr
  file_size :: int
  file_text :: "jstr option"
  file_extract :: "jstr + (jstr \<times> nat)"

text \<open>
  The React state of the testimony tool that the handlers below read or write. The two
  display counters \<open>priceUsed\<close> and \<open>documentsUsed\<close>, which only feed the usage meters, the
  timers and the recording flag are left out. \<open>t_ids\<close> counts the identifiers that
  \<open>uuidv4\<close> has handed out. \<open>showError\<close> sets the error (the timer that clears it ten
  seconds later is not modelled).
\<close>

record testimony_ui =
  t_session :: "PracticeSession option"
  t_currentStep :: AppStep
  t_witnessName :: jstr
  t_caseName :: jstr
  t_isUploadingDocument :: bool
  t_isGeneratingQuestions :: bool
  t_error :: "jstr option"
  t_limitReached :: "limit_kind option"
  t_currentQuestionIndex :: nat
  t_witnessResponse :: jstr
  t_lastAIResponse :: "json option"
  t_showFeedback :: bool
  t_ids :: nat

record deposition_ui =
  d_session :: "DepositionSession option"
  d_currentStep :: AppStep
  d_deponentName :: jstr
  d_caseName :: jstr
  d_caseNumber :: jstr
  d_isUploadingDocument :: bool
  d_isGeneratingQuestions :: bool
  d_error :: "jstr option"
  d_limitReached :: "limit_kind option"
  d_expandedQuestions :: "jstr list"
  d_selectedTopic :: "jstr option"
  d_selectedPriority :: "jstr option"
  d_ids :: nat

text \<open>\<open>getSessionStats()\<close> in the browser, on the store.\<close>

definition read_stats :: "platform \<Rightarrow> config \<Rightarrow> int \<Rightarrow> storage \<Rightarrow> (js_error + stats_value) \<times> storage" where
  "read_stats p cfg now st =
     (case getSessionStats p cfg now (Some (stats_item st)) of
        (r, w) \<Rightarrow> (r, st\<lparr>stats_item := (case w of None \<Rightarrow> stats_item st | Some item \<Rightarrow> item)\<rparr>))"

text \<open>
  \<open>resetToSetup\<close> of the testimony tool. It ends with a read of the statistics for the two
  display counters; an error thrown by that read leaves the handler.
\<close>

definition resetToSetup_testimony ::
  "platform \<Rightarrow> config \<Rightarrow> int \<Rightarrow> testimony_ui \<times> storage \<Rightarrow> js_error + testimony_ui \<times> storage"
where
  "resetToSetup_testimony p cfg now x =
     (case x of (ui, st) \<Rightarrow>
        (let st1 = (case t_session ui of None \<Rightarrow> st | Some session \<Rightarrow> deleteSession st (ps_id session));
             ui1 = ui\<lparr>t_session := None, t_currentStep := Setup, t_witnessName := [],
                      t_caseName := [], t_currentQuestionIndex := 0, t_witnessResponse := [],
                      t_lastAIResponse := None, t_showFeedback := False, t_error := None,
                      t_limitReached := None\<rparr>
         in case read_stats p cfg now st1 of
              (Inl e, st2) \<Rightarrow> Inl e
            | (Inr stats, st2) \<Rightarrow> Inr (ui1, st2)))"

text \<open>
  \<open>resetToSetup\<close> of the deposition tool: the same, then the filters are cleared and the
  value under \<open>wtp_current_deposition_session\<close> is removed.
\<close>

definition resetToSetup_deposition ::
  "platform \<Rightarrow> config \<Rightarrow> int \<Rightarrow> deposition_ui \<times> storage \<Rightarrow> js_error + deposition_ui \<times> storage"
where
  "resetToSetup_deposition p cfg now x =
     (case x of (ui, st) \<Rightarrow>
        (let ui1 = ui\<lparr>d_session := None, d_currentStep := Setup, d_deponentName := [],
                      d_caseName := [], d_caseNumber := [], d_error := None,
                      d_limitReached := None\<rparr>
         in case read_stats p cfg now st of
              (Inl e, st1) \<Rightarrow> Inl e
            | (Inr stats, st1) \<Rightarrow>
                Inr (ui1\<lparr>d_expandedQuestions := [], d_selectedTopic := None,
                          d_selectedPriority := None\<rparr>,
                     st1\<lparr>current_deposition := None\<rparr>)))"

text \<open>The messages of the upload handlers.\<close>

definition too_large_message :: "platform \<Rightarrow> config \<Rightarrow> jstr \<Rightarrow> jstr" where
  "too_large_message p cfg name =
     str ''File \"'' @ name @ str ''\" exceeds '' @
     numstr p (of_int (maxFileSize cfg) / (1024 * 1024)) @ str ''MB limit''"

definition session_limit_message :: "platform \<Rightarrow> config \<Rightarrow> jstr" where
  "session_limit_message p cfg =
     str ''Demo limit: Maximum '' @ numstr p (of_int (maxDocumentsPerSession cfg)) @
     str '' documents per session''"

definition limit_reached_message :: "platform \<Rightarrow> config \<Rightarrow> jstr" where
  "limit_reached_message p cfg =
     str ''Demo limit reached: Maximum '' @ numstr p (of_int (maxDocumentsPerSession cfg)) @
     str '' documents''"

text \<open>
  \<open>handleFileUpload\<close> of the deposition tool. \<open>session\<close> is the session of the render in
  which the handler was created: \<open>setSession\<close> does not change it while the handler runs,
  and \<open>addDepositionDocument\<close> returns a new object, so the test at the head of the loop
  reads the same document list for every file.
\<close>

definition new_deposition_document :: "platform \<Rightarrow> int \<Rightarrow> nat \<Rightarrow> upload_file \<Rightarrow> jstr \<Rightarrow> DepositionDocument" where
  "new_deposition_document p now k f content =
     \<lparr>dd_id = uuid p k, dd_name = file_name f,
      dd_type = detectDocumentType (file_name f) (Some content),
      dd_fileType = (if file_type f = [] then str ''text/plain'' else file_type f),
      dd_size = file_size f, dd_uploadedAt = now, dd_content = content, dd_status = Ready,
      dd_pageCount = (length content + 2999) div 3000, dd_source = file_name f\<rparr>"

fun deposition_upload_loop ::
  "platform \<Rightarrow> config \<Rightarrow> int \<Rightarrow> DepositionSession \<Rightarrow> upload_file list \<Rightarrow>
     deposition_ui \<times> storage \<Rightarrow> deposition_ui \<times> storage"
where
  "deposition_upload_loop p cfg now session [] x = x"
| "deposition_upload_loop p cfg now session (f # fs) x =
     (case x of (ui, st) \<Rightarrow>
        if int (length (ds_documents session)) \<ge> maxDocumentsPerSession cfg
        then (ui\<lparr>d_error := Some (limit_reached_message p cfg)\<rparr>, st)
        else if file_size f > maxFileSize cfg
        then deposition_upload_loop p cfg now session fs
               (ui\<lparr>d_error := Some (too_large_message p cfg (file_name f))\<rparr>, st)
        else
          (case file_text f of
             None \<Rightarrow>
               deposition_upload_loop p cfg now session fs
                 (ui\<lparr>d_error := Some (str ''Failed to upload '' @ file_name f)\<rparr>, st)
           | Some content \<Rightarrow>
               (case addDepositionDocument st (ds_id session)
                       (new_deposition_document p now (d_ids ui) f content) of
                  (None, st') \<Rightarrow>
                    deposition_upload_loop p cfg now session fs (ui\<lparr>d_ids := Suc (d_ids ui)\<rparr>, st')
                | (Some updated, st') \<Rightarrow>
                    deposition_upload_loop p cfg now session fs
                      (ui\<lparr>d_ids := Suc (d_ids ui), d_session := Some updated\<rparr>, st'))))"

definition handleFileUpload_deposition ::
  "platform \<Rightarrow> config \<Rightarrow> int \<Rightarrow> upload_file list option \<Rightarrow> deposition_ui \<times> storage \<Rightarrow>
     deposition_ui \<times> storage"
where
  "handleFileUpload_deposition p cfg now files x =
     (case x of (ui, st) \<Rightarrow>
        (case (files, d_session ui) of
           (Some fs, Some session) \<Rightarrow>
             if int (length (ds_documents session)) \<ge> maxDocumentsPerSession cfg
             then (ui\<lparr>d_limitReached := Some documentLimit,
                       d_error := Some (session_limit_message p cfg)\<rparr>, st)
             else
               (case deposition_upload_loop p cfg now session fs
                       (ui\<lparr>d_isUploadingDocument := True, d_error := None\<rparr>, st) of
                  (ui', st') \<Rightarrow> (ui'\<lparr>d_isUploadingDocument := False\<rparr>, st'))
         | _ \<Rightarrow> (ui, st)))"

text \<open>
  \<open>POST /api/testimony/ocr\<close>, as the upload handler uses it: status 400 with a message
  when there is no text, and otherwise the cost \<open>calculateCost(text.length)\<close>.
\<close>

definition calculateCost :: "config \<Rightarrow> nat \<Rightarrow> rat" where
  "calculateCost cfg charCount = (of_nat charCount / 1000) * pricePerThousandChars cfg"

definition POST_ocr :: "config \<Rightarrow> jstr \<Rightarrow> jstr + rat" where
  "POST_ocr cfg text =
     (if text = [] then Inl (str ''No text provided'') else Inr (calculateCost cfg (length text)))"

text \<open>The \<open>message\<close> of a thrown error, as V8 words it.\<close>

definition error_message :: "js_error \<Rightarrow> jstr" where
  "error_message e =
     (case e of
        RangeError \<Rightarrow> str ''Invalid time value''
      | TypeError \<Rightarrow> str ''Cannot convert object to primitive value'')"

text \<open>
  The first part of the \<open>try\<close> block of the testimony upload, for one file: the text is
  extracted, the route is asked for the cost (the request is taken to arrive), and a cost
  other than zero is recorded. The result is the message of what was thrown, or the text
  and the store afterwards.
\<close>

definition process_file ::
  "platform \<Rightarrow> config \<Rightarrow> int \<Rightarrow> upload_file \<Rightarrow> storage \<Rightarrow> jstr + (jstr \<times> storage)"
where
  "process_file p cfg now f st =
     (case file_extract f of
        Inl msg \<Rightarrow> Inl msg
      | Inr (content, pageCount) \<Rightarrow>
          (case POST_ocr cfg content of
             Inl msg \<Rightarrow> Inl msg
           | Inr c \<Rightarrow>
               if c \<noteq> 0 then
                 (case incrementSessionPrice p cfg now c (stats_item st) of
                    Inl e \<Rightarrow> Inl (error_message e)
                  | Inr item \<Rightarrow> Inr (content, st\<lparr>stats_item := item\<rparr>))
               else Inr (content, st)))"

text \<open>
  The body of the loop of \<open>handleFileUpload\<close> of the testimony tool, for the session
  identifier \<open>sid\<close> and one file. The document is stored with the status \<open>processing\<close>
  before its text is extracted, and marked \<open>ready\<close> or \<open>error\<close> afterwards.
\<close>

definition mark_document ::
  "jstr \<Rightarrow> (Document \<Rightarrow> Document) \<Rightarrow> jstr \<Rightarrow> testimony_ui \<times> storage \<Rightarrow> testimony_ui \<times> storage"
where
  "mark_document sid change docId x =
     (case x of (ui, st) \<Rightarrow>
        (case getSession st sid of
           None \<Rightarrow> (ui, st)
         | Some currentSession \<Rightarrow>
             (case updateSession_documents st sid
                     (map (\<lambda>d. if td_id d = docId then change d else d) (ps_documents currentSession)) of
                (None, st') \<Rightarrow> (ui, st')
              | (Some updated, st') \<Rightarrow> (ui\<lparr>t_session := Some updated\<rparr>, st'))))"

definition testimony_upload_one ::
  "platform \<Rightarrow> config \<Rightarrow> int \<Rightarrow> jstr \<Rightarrow> upload_file \<Rightarrow> testimony_ui \<times> storage \<Rightarrow> testimony_ui \<times> storage"
where
  "testimony_upload_one p cfg now sid f x =
     (case x of (ui, st) \<Rightarrow>
        if file_size f > maxFileSize cfg
        then (ui\<lparr>t_error := Some (too_large_message p cfg (file_name f))\<rparr>, st)
        else
          (let docId = uuid p (t_ids ui);
               doc = \<lparr>td_id = docId, td_name = file_name f,
                      td_type = (if file_type f = [] then str ''unknown'' else file_type f),
                      td_size = file_size f, td_uploadedAt = now, td_status = Processing,
                      td_content = None\<rparr>;
               ui0 = ui\<lparr>t_ids := Suc (t_ids ui)\<rparr>
           in case addDocument st sid doc of
                (added, st1) \<Rightarrow>
                  (let ui1 = (case added of None \<Rightarrow> ui0 | Some updated \<Rightarrow> ui0\<lparr>t_session := Some updated\<rparr>)
                   in case process_file p cfg now f st1 of
                        Inr (content, st2) \<Rightarrow>
                          mark_document sid (\<lambda>d. d\<lparr>td_content := Some content, td_status := Ready\<rparr>)
                            docId (ui1, st2)
                      | Inl msg \<Rightarrow>
                          mark_document sid (\<lambda>d. d\<lparr>td_status := Errored\<rparr>) docId
                            (ui1\<lparr>t_error := Some (file_name f @ str '': '' @ msg)\<rparr>, st1))))"

definition handleFileUpload_testimony ::
  "platform \<Rightarrow> config \<Rightarrow> int \<Rightarrow> upload_file list option \<Rightarrow> testimony_ui \<times> storage \<Rightarrow>
     testimony_ui \<times> storage"
where
  "handleFileUpload_testimony p cfg now files x =
     (case x of (ui, st) \<Rightarrow>
        (case (files, t_session ui) of
           (Some fs, Some session) \<Rightarrow>
             if int (length (ps_documents session)) \<ge> maxDocumentsPerSession cfg
             then (ui\<lparr>t_limitReached := Some documentLimit\<rparr>, st)
             else
               (case foldl (\<lambda>y f. testimony_upload_one p cfg now (ps_id session) f y)
                       (ui\<lparr>t_isUploadingDocument := True, t_error := None\<rparr>, st) fs of
                  (ui', st') \<Rightarrow> (ui'\<lparr>t_isUploadingDocument := False\<rparr>, st'))
         | _ \<Rightarrow> (ui, st)))"

text \<open>
  What a client sees of a response to its request for questions: whether the status is a
  success, and the fields \<open>error\<close>, \<open>limitReached\<close>, \<open>cost\<close> and \<open>questions\<close> of the body.
  \<open>reply_of\<close> is the view of a response of the testimony route: none of its bodies has a
  field \<open>limitReached\<close>.
\<close>

record reply =
  reply_ok :: bool
  reply_error :: "jstr option"
  reply_limitReached :: bool
  reply_cost :: "rat option"
  reply_questions :: "CrossExamQuestion list option"

definition reply_of :: "response \<Rightarrow> reply" where
  "reply_of r =
     (case r of
        Failure status msg \<Rightarrow>
          \<lparr>reply_ok = False, reply_error = Some msg, reply_limitReached = False,
           reply_cost = None, reply_questions = None\<rparr>
      | Success g \<Rightarrow>
          \<lparr>reply_ok = True, reply_error = None, reply_limitReached = False,
           reply_cost = Some (cost g), reply_questions = Some (questions g)\<rparr>)"

text \<open>
  \<open>handleGenerateQuestions\<close> of the testimony tool, given what \<open>fetch\<close> brings back
  (\<open>None\<close>: the request fails). The \<open>finally\<close> clause clears the busy flag on every path.
\<close>

definition generate_failed_message :: jstr where
  "generate_failed_message = str ''Failed to generate questions. Please try again.''"

definition handleGenerateQuestions ::
  "platform \<Rightarrow> config \<Rightarrow> int \<Rightarrow> reply option \<Rightarrow> testimony_ui \<times> storage \<Rightarrow> testimony_ui \<times> storage"
where
  "handleGenerateQuestions p cfg now fetched x =
     (case x of (ui, st) \<Rightarrow>
        (case t_session ui of
           None \<Rightarrow> (ui, st)
         | Some session \<Rightarrow>
             if ps_documents session = [] then (ui, st)
             else
               (let ui1 = ui\<lparr>t_isGeneratingQuestions := True, t_error := None\<rparr>;
                    failed = (\<lambda>st'. (ui1\<lparr>t_error := Some generate_failed_message,
                                          t_isGeneratingQuestions := False\<rparr>, st'))
                in case fetched of
                     None \<Rightarrow> failed st
                   | Some data \<Rightarrow>
                       if \<not> reply_ok data then
                         (if reply_limitReached data
                          then (ui1\<lparr>t_limitReached := Some priceLimit,
                                    t_isGeneratingQuestions := False\<rparr>, st)
                          else failed st)
                       else
                         (case (case reply_cost data of
                                  None \<Rightarrow> Inr st
                                | Some c \<Rightarrow>
                                    if c \<noteq> 0 then
                                      (case incrementSessionPrice p cfg now c (stats_item st) of
                                         Inl e \<Rightarrow> Inl e
                                       | Inr item \<Rightarrow> Inr (st\<lparr>stats_item := item\<rparr>))
                                    else Inr st) of
                            Inl e \<Rightarrow> failed st
                          | Inr st1 \<Rightarrow>
                              (case reply_questions data of
                                 None \<Rightarrow>
                                   (ui1\<lparr>t_error := Some (str ''No questions generated. Please try again.''),
                                        t_isGeneratingQuestions := False\<rparr>, st1)
                               | Some qs \<Rightarrow>
                                   if length qs > 0 then
                                     (case setQuestions st1 (ps_id session) qs of
                                        (None, st2) \<Rightarrow> (ui1\<lparr>t_isGeneratingQuestions := False\<rparr>, st2)
                                      | (Some updated, st2) \<Rightarrow>
                                          (ui1\<lparr>t_session := Some updated, t_currentStep := Questions,
                                               t_isGeneratingQuestions := False\<rparr>, st2))
                                   else
                                     (ui1\<lparr>t_error := Some (str ''No questions generated. Please try again.''),
                                          t_isGeneratingQuestions := False\<rparr>, st1))))))"

text \<open>
  The whole operation: the request the handler sends for its session, the route, and the
  handler's reading of the response (the request is taken to arrive).
\<close>

definition request_of :: "PracticeSession \<Rightarrow> request_body" where
  "request_of session =
     \<lparr>req_witnessName = ps_witnessName session, req_caseName = ps_caseName session,
      req_documents =
        map (\<lambda>d. \<lparr>doc_name = td_name d,
                   doc_content = Some (case td_content d of None \<Rightarrow> [] | Some c \<Rightarrow> c)\<rparr>)
          (ps_documents session)\<rparr>"

definition generate_questions_operation ::
  "platform \<Rightarrow> config \<Rightarrow> int \<Rightarrow> llm_result \<Rightarrow> testimony_ui \<times> storage \<Rightarrow> testimony_ui \<times> storage"
where
  "generate_questions_operation p cfg now llm x =
     (case t_session (fst x) of
        None \<Rightarrow> x
      | Some session \<Rightarrow>
          handleGenerateQuestions p cfg now
            (Some (reply_of (POST_generate_questions p cfg (Some (request_of session)) llm))) x)"

text \<open>
  \<open>generateQuestions\<close> of the deposition tool, given what \<open>fetch\<close> brings back from the
  deposition route: the fields of the body it reads are kept as JSON.
\<close>

record deposition_reply =
  dr_ok :: bool
  dr_error :: "jstr option"
  dr_limitReached :: bool
  dr_cost :: "rat option"
  dr_questions :: "json list option"
  dr_gaps :: "json list option"
  dr_contradictions :: "json list option"
  dr_analysis :: "json option"

definition empty_analysis :: json where
  "empty_analysis =
     JObj [(str ''keyThemes'', JArr []), (str ''timelineEvents'', JArr []),
           (str ''witnesses'', JArr []), (str ''keyExhibits'', JArr [])]"

definition generateQuestions_deposition ::
  "platform \<Rightarrow> config \<Rightarrow> int \<Rightarrow> deposition_reply option \<Rightarrow> deposition_ui \<times> storage \<Rightarrow>
     deposition_ui \<times> storage"
where
  "generateQuestions_deposition p cfg now fetched x =
     (case x of (ui, st) \<Rightarrow>
        (case d_session ui of
           None \<Rightarrow> (ui, st)
         | Some session \<Rightarrow>
             if ds_documents session = [] then (ui, st)
             else
               (let ui1 = ui\<lparr>d_isGeneratingQuestions := True, d_error := None\<rparr>;
                    failed = (\<lambda>msg st'. (ui1\<lparr>d_error := Some msg, d_isGeneratingQuestions := False\<rparr>, st'))
                in case fetched of
                     None \<Rightarrow> failed generate_failed_message st
                   | Some data \<Rightarrow>
                       if \<not> dr_ok data then
                         (if dr_limitReached data
                          then (ui1\<lparr>d_limitReached := Some priceLimit,
                                    d_isGeneratingQuestions := False\<rparr>, st)
                          else failed (case dr_error data of
                                         None \<Rightarrow> str ''Failed to generate questions''
                                       | Some m \<Rightarrow> if m = [] then str ''Failed to generate questions'' else m) st)
                       else
                         (case (case dr_cost data of
                                  None \<Rightarrow> Inr st
                                | Some c \<Rightarrow>
                                    if c \<noteq> 0 then
                                      (case incrementSessionPrice p cfg now c (stats_item st) of
                                         Inl e \<Rightarrow> Inl e
                                       | Inr item \<Rightarrow> Inr (st\<lparr>stats_item := item\<rparr>))
                                    else Inr st) of
                            Inl e \<Rightarrow> failed generate_failed_message st
                          | Inr st1 \<Rightarrow>
                              (case setDepositionQuestions st1 (ds_id session)
                                      (case dr_questions data of None \<Rightarrow> [] | Some qs \<Rightarrow> qs) of
                                 (u1, st2) \<Rightarrow>
                                   (case setAnalysisResults st2 (ds_id session)
                                           (case dr_gaps data of None \<Rightarrow> [] | Some gs \<Rightarrow> gs)
                                           (case dr_contradictions data of None \<Rightarrow> [] | Some cs \<Rightarrow> cs)
                                           (case dr_analysis data of
                                              None \<Rightarrow> empty_analysis
                                            | Some a \<Rightarrow> if truthy (Some a) then a else empty_analysis) of
                                      (None, st3) \<Rightarrow> (ui1\<lparr>d_isGeneratingQuestions := False\<rparr>, st3)
                                    | (Some updated, st3) \<Rightarrow>
                                        (ui1\<lparr>d_session := Some updated, d_currentStep := Analysis,
                                             d_isGeneratingQuestions := False\<rparr>, st3)))))))"

text \<open>The zeroed statistics of a window that starts at \<open>now\<close>.\<close>

definition fresh_stats :: "platform \<Rightarrow> config \<Rightarrow> int \<Rightarrow> SessionStats" where
  "fresh_stats p cfg now =
     \<lparr>documentsUploaded = 0, totalStorageUsed = 0, sessionPrice = 0, sessionStartAt = now,
      sessionResetAt = add_hours p (sessionHours cfg) now\<rparr>"


text \<open>
  What \<open>JSON.parse\<close> reads from the store: nothing when the key is missing, its text is
  empty or the text is not JSON.
\<close>

definition stored_value :: "blob option \<Rightarrow> stats_value option" where
  "stored_value item =
     (case item of
        None \<Rightarrow> None
      | Some b \<Rightarrow> if b = Raw [] then None else parse_blob b)"

text \<open>
  The reset instant of the stored ledger, as the read sees it: the instant of
  \<open>new Date(stats.sessionResetAt)\<close> when the store holds a value that has one.
\<close>

definition reset_instant :: "platform \<Rightarrow> blob option \<Rightarrow> int option" where
  "reset_instant p item =
     (case stored_value item of
        None \<Rightarrow> None
      | Some (Stats st) \<Rightarrow> Some (sessionResetAt st)
      | Some (Foreign v) \<Rightarrow>
          if v = JNull then None
          else (case to_date p (get_prop v (str ''sessionResetAt'')) of
                  Some (Some t) \<Rightarrow> Some t
                | _ \<Rightarrow> None))"

section \<open>The earlier limit service\<close>

text \<open>
  \<open>OCRLimitService.checkUploadAllowed\<close> of \<open>ocr-limit-service.ts.bak\<close>, which the program no
  longer exports. The limits \<open>DEMO_LIMITS.ocr\<close> and the usage \<open>getOCRUsage()\<close> it reads are not
  among the sources and are parameters here; the reason of a denial is kept as the check
  that gave it.
\<close>

record ocr_limits =
  ocr_maxFileSize :: int
  ocr_maxDocumentsPerSession :: int
  ocr_maxPagesPerDocument :: int
  ocr_maxPagesPerDay :: int

record ocr_usage =
  sessionDocuments :: int
  dailyPages :: int

datatype denial = FileSizeExceeded | SessionDocumentLimit | DocumentPageLimit | DailyPageLimit

definition checkFileSizeAllowed :: "ocr_limits \<Rightarrow> int \<Rightarrow> denial option" where
  "checkFileSizeAllowed limits fileSize =
     (if fileSize > ocr_maxFileSize limits then Some FileSizeExceeded else None)"

definition checkDocumentUploadAllowed :: "ocr_limits \<Rightarrow> ocr_usage \<Rightarrow> denial option" where
  "checkDocumentUploadAllowed limits usage =
     (if sessionDocuments usage \<ge> ocr_maxDocumentsPerSession limits
      then Some SessionDocumentLimit else None)"

definition checkPagesAllowed :: "ocr_limits \<Rightarrow> ocr_usage \<Rightarrow> int \<Rightarrow> denial option" where
  "checkPagesAllowed limits usage pageCount =
     (if pageCount > ocr_maxPagesPerDocument limits then Some DocumentPageLimit
      else if dailyPages usage + pageCount > ocr_maxPagesPerDay limits then Some DailyPageLimit
      else None)"

definition checkUploadAllowed :: "ocr_limits \<Rightarrow> ocr_usage \<Rightarrow> int \<Rightarrow> int \<Rightarrow> denial option" where
  "checkUploadAllowed limits usage fileSize estimatedPages =
     (case checkFileSizeAllowed limits fileSize of
        Some d \<Rightarrow> Some d
      | None \<Rightarrow>
          (case checkDocumentUploadAllowed limits usage of
             Some d \<Rightarrow> Some d
           | None \<Rightarrow> checkPagesAllowed limits usage estimatedPages))"

section \<open>Examples\<close>

text \<open>
  An example platform for the closed examples below: a number prints as its whole part in
  decimal, no text is a date, the k-th identifier is \<open>id-\<close> followed by k letters x, the
  system prompt is the witness name alone, and the local clock shows UTC.
\<close>

definition example_platform :: platform where
  "example_platform =
     \<lparr>numstr = (\<lambda>x. decimal (nat \<lfloor>x\<rfloor>)), date_parse = (\<lambda>t. None),
      uuid = (\<lambda>k. str ''id-'' @ replicate k 120), systemPrompt = (\<lambda>w. w),
      tz_offset = (\<lambda>t. 0), tz_offset_local = (\<lambda>l. 0)\<rparr>"




text \<open>
  A ledger with three documents and two dollars spent whose window ends at the instant
  86401000; a testimony session and a deposition session with no document yet; a store
  holding them; the state of each tool on the documents step; two small text files and a
  file of 20 MB.
\<close>

definition example_ledger :: SessionStats where
  "example_ledger =
     \<lparr>documentsUploaded = 3, totalStorageUsed = 0, sessionPrice = 2, sessionStartAt = 1000,
      sessionResetAt = 86401000\<rparr>"

definition example_session :: PracticeSession where
  "example_session =
     \<lparr>ps_id = str ''s1'', ps_witnessName = str ''Jane Doe'', ps_caseName = str ''Doe v. Roe'',
      ps_documents = [], ps_questions = []\<rparr>"

definition example_deposition :: DepositionSession where
  "example_deposition =
     \<lparr>ds_id = str ''d1'', ds_deponentName = str ''Jane Doe'', ds_caseName = str ''Doe v. Roe'',
      ds_documents = [], ds_questions = [], ds_gaps = [], ds_contradictions = [],
      ds_analysis = None\<rparr>"

definition example_store :: storage where
  "example_store =
     \<lparr>stats_item = Some (Written (Stats example_ledger)),
      testimony_sessions = [str ''s1'' \<mapsto> example_session],
      deposition_sessions = [str ''d1'' \<mapsto> example_deposition],
      current_deposition = Some (str ''d1'')\<rparr>"

definition example_testimony_ui :: testimony_ui where
  "example_testimony_ui =
     \<lparr>t_session = Some example_session, t_currentStep = Documents, t_witnessName = str ''Jane Doe'',
      t_caseName = str ''Doe v. Roe'', t_isUploadingDocument = False,
      t_isGeneratingQuestions = False, t_error = None, t_limitReached = None,
      t_currentQuestionIndex = 0, t_witnessResponse = [], t_lastAIResponse = None,
      t_showFeedback = False, t_ids = 0\<rparr>"

definition example_deposition_ui :: deposition_ui where
  "example_deposition_ui =
     \<lparr>d_session = Some example_deposition, d_currentStep = Documents,
      d_deponentName = str ''Jane Doe'', d_caseName = str ''Doe v. Roe'', d_caseNumber = [],
      d_isUploadingDocument = False, d_isGeneratingQuestions = False, d_error = None,
      d_limitReached = None, d_expandedQuestions = [], d_selectedTopic = None,
      d_selectedPriority = None, d_ids = 0\<rparr>"

definition file_a :: upload_file where
  "file_a =
     \<lparr>file_name = str ''a.txt'', file_type = str ''text/plain'', file_size = 5,
      file_text = Some (str ''hello''), file_extract = Inr (str ''hello'', 1)\<rparr>"

definition file_b :: upload_file where
  "file_b =
     \<lparr>file_name = str ''b.txt'', file_type = str ''text/plain'', file_size = 5,
      file_text = Some (str ''world''), file_extract = Inr (str ''world'', 1)\<rparr>"

definition file_big :: upload_file where
  "file_big =
     \<lparr>file_name = str ''big.txt'', file_type = str ''text/plain'', file_size = 20971520,
      file_text = Some (str ''hello''), file_extract = Inr (str ''hello'', 1)\<rparr>"

text \<open>
  The configuration with room for one document per session, and the deposition session
  that already holds one.
\<close>

definition one_document_config :: config where
  "one_document_config = default_config\<lparr>maxDocumentsPerSession := 1\<rparr>"

definition full_deposition :: DepositionSession where
  "full_deposition =
     example_deposition\<lparr>ds_documents :=
       [new_deposition_document example_platform 1000 0 file_a (str ''hello'')]\<rparr>"

text \<open>
  The configuration with a price ceiling of one cent, a testimony session with one document
  ready, and a store whose ledger already records two cents.
\<close>

definition tight_config :: config where
  "tight_config = default_config\<lparr>sessionPriceLimit := 1 / 100\<rparr>"

definition ready_session :: PracticeSession where
  "ready_session =
     example_session\<lparr>ps_documents :=
       [\<lparr>td_id = str ''doc1'', td_name = str ''a.txt'', td_type = str ''text/plain'',
         td_size = 5, td_uploadedAt = 1000, td_status = Ready,
         td_content = Some (str ''hello'')\<rparr>]\<rparr>"

definition spent_store :: storage where
  "spent_store =
     \<lparr>stats_item = Some (Written (Stats (example_ledger\<lparr>sessionPrice := 1 / 50\<rparr>))),
      testimony_sessions = [str ''s1'' \<mapsto> ready_session],
      deposition_sessions = Map.empty,
      current_deposition = None\<rparr>"

text \<open>The remote call has failed: it threw, or no strategy can parse its answer.\<close>

definition llm_failed :: "llm_result \<Rightarrow> bool" where
  "llm_failed llm =
     (case llm of
        Throws \<Rightarrow> True
      | Responds choices \<Rightarrow> parseJSONResponse (message_content choices) = None)"

text \<open>A question whose category and difficulty are in the two enumerations.\<close>

definition well_labelled :: "CrossExamQuestion \<Rightarrow> bool" where
  "well_labelled q =
     (category q \<in> set valid_categories \<and> difficulty q \<in> set valid_difficulties)"

text \<open>A text wrapped in Markdown code fences: the line \<open>```json\<close>, the text, the line \<open>```\<close>.\<close>

definition fenced :: "jstr \<Rightarrow> jstr" where
  "fenced J = fence @ str ''json'' @ [10] @ J @ [10] @ fence"

text \<open>
  The request of the scenario: the witness Jane Doe, the case Doe v. Roe, and one text file
  of 1024 characters.
\<close>

definition example_request :: request_body where
  "example_request =
     \<lparr>req_witnessName = str ''Jane Doe'', req_caseName = str ''Doe v. Roe'',
      req_documents = [\<lparr>doc_name = str ''statement.txt'', doc_content = Some (replicate 1024 97)\<rparr>]\<rparr>"

text \<open>An answer of the model: a JSON array of two questions, the first with a category and a
  difficulty outside the enumerations.\<close>

definition example_answer :: jstr where
  "example_answer =
     str ''[{\"category\": \"Timeline\", \"difficulty\": 3}, {\"category\": \"impeachment\", \"difficulty\": \"hard\"}]''"

definition example_answer_parsed :: "json list" where
  "example_answer_parsed =
     [JObj [(str ''category'', JStr (str ''Timeline'')), (str ''difficulty'', JNum 3)],
      JObj [(str ''category'', JStr (str ''impeachment'')), (str ''difficulty'', JStr (str ''hard''))]]"

section \<open>Evaluation\<close>

text \<open>The definitions that the simplifier unfolds to run the parser and the chain on a text.\<close>

lemmas parse_defs = JSON_parse_def json_trim_def str_def is_json_ws_def skip_ws_def
  lex_number_def lex_int_def lex_frac_def lex_exp_def is_digit_def digits_val_def digit_val_def
  pow10_def hex_val_def escape_unit_def as_array_def

lemmas upload_defs = handleFileUpload_deposition_def handleFileUpload_testimony_def
  testimony_upload_one_def mark_document_def process_file_def POST_ocr_def calculateCost_def
  incrementSessionPrice_def with_price_def getSessionStats_def getSessionResetTime_def
  add_hours_def setHours_def getHours_def local_time_def utc_time_def
  valid_time_def parse_blob_def addDepositionDocument_def put_deposition_def
  new_deposition_document_def addDocument_def put_session_def getSession_def
  updateSession_documents_def

lemmas chain_defs = parseJSONResponse_def strategy1_def strategy2_def strategy3_def strategy4_def
  clean_def trim_def strip_bom_def strip_open_fence_def close_here_def fence_tail_def fence_def
  is_js_ws_def open_len_def shut_len_def toLowerCase_def lower_unit_def

section \<open>Classification: theorems\<close>

text \<open>
  C5. Document classification is a function of the file name and the content alone, and it
  is the ordered rule list of the specification: the rules are tried in the order
  transcript, prior testimony, exhibit, case file, each looking at the lower-cased name and
  the lower-cased content, the first rule that matches gives the type and \<open>other\<close> is the
  default.
\<close>

theorem detectDocumentType_rules:
  "detectDocumentType filename content = classify_spec filename content \<and>
   map rule_type classification_rules = [transcript, prior_testimony, exhibit, case_file]"
  by (simp add: detectDocumentType_def classify_spec_def classification_rules_def
      rule_matches_def Let_def)

text \<open>
  A file named \<open>Testimony_Ex-12.txt\<close> whose content has a line \<open>Q: ...\<close> matches the
  transcript rule (by its content), the prior-testimony rule and the exhibit rule (by its
  name): the first of them wins.
\<close>

theorem detectDocumentType_rules_witness:
  "detectDocumentType (str ''Testimony_Ex-12.txt'') (Some (str ''Q: Where were you?'')) = transcript \<and>
   classify_spec (str ''Testimony_Ex-12.txt'') (Some (str ''Q: Where were you?'')) = transcript"
proof -
  have "detectDocumentType (str ''Testimony_Ex-12.txt'') (Some (str ''Q: Where were you?'')) = transcript"
    by (simp add: detectDocumentType_def str_def toLowerCase_def lower_unit_def Let_def)
  then show ?thesis
    using detectDocumentType_rules [of "str ''Testimony_Ex-12.txt''" "Some (str ''Q: Where were you?'')"]
    by simp
qed

lemma detectDocumentType_name_only:
  "detectDocumentType (str ''Testimony_Ex-12.txt'') None = prior_testimony \<and>
   detectDocumentType (str ''EX_7.pdf'') None = exhibit \<and>
   detectDocumentType (str ''Motion to dismiss.pdf'') None = case_file \<and>
   detectDocumentType (str ''notes.txt'') (Some (str ''nothing of note'')) = other"
  by (simp add: detectDocumentType_def str_def toLowerCase_def lower_unit_def Let_def is_digit_def)

section \<open>The question generator: theorems\<close>

lemma validateCategory_valid: "validateCategory c \<in> set valid_categories"
  by (simp add: validateCategory_def valid_categories_def)

lemma validateDifficulty_valid: "validateDifficulty d \<in> set valid_difficulties"
  by (simp add: validateDifficulty_def valid_difficulties_def)

lemma mk_question_labelled: "mk_question p i q = Some x \<Longrightarrow> well_labelled x"
  by (auto simp: mk_question_def well_labelled_def validateCategory_valid validateDifficulty_valid
      split: if_splits Option.bind_splits)

lemma map_questions_labelled:
  "map_questions p k qs = (Some xs, k') \<Longrightarrow> list_all well_labelled xs \<and> length xs = length qs"
proof (induction qs arbitrary: k xs k')
  case Nil
  then show ?case by simp
next
  case (Cons q qs)
  then show ?case
    by (auto split: option.splits prod.splits dest: mk_question_labelled)
qed

lemma fallback_entries_labelled: "list_all well_labelled (fallback_entries d)"
  by (simp add: fallback_entries_def well_labelled_def valid_categories_def
      valid_difficulties_def str_def)

lemma fallback_entries_length: "length (fallback_entries d) = 20"
  by (simp add: fallback_entries_def)

lemma assign_ids_labelled:
  "list_all well_labelled qs \<Longrightarrow> list_all well_labelled (assign_ids p k qs)"
  by (auto simp: assign_ids_def list_all_iff well_labelled_def dest!: set_zip_rightD)

lemma assign_ids_length: "length (assign_ids p k qs) = length qs"
  by (simp add: assign_ids_def)

lemma generateFallbackQuestions_length: "length (generateFallbackQuestions p k w ds) = 20"
  by (simp add: generateFallbackQuestions_def Let_def assign_ids_length fallback_entries_length)

lemma generateFallbackQuestions_labelled:
  "list_all well_labelled (generateFallbackQuestions p k w ds)"
  by (simp add: generateFallbackQuestions_def Let_def assign_ids_labelled
      fallback_entries_labelled)

lemma ask_llm_labelled:
  "ask_llm p cfg b llm = (qs, caught, price, chars, k) \<Longrightarrow>
     list_all well_labelled qs \<and> length qs \<le> 20"
  by (auto simp: ask_llm_def Let_def
      split: llm_result.splits if_splits option.splits prod.splits
      dest!: map_questions_labelled)

lemma ask_llm_failed:
  "llm_failed llm \<Longrightarrow> ask_llm p cfg b llm = (qs, caught, price, chars, k) \<Longrightarrow> qs = [] \<and> k = 0"
  by (auto simp: ask_llm_def llm_failed_def Let_def split: llm_result.splits if_splits)

text \<open>
  C10. Whatever the route returns with status 200 holds at most 20 questions, and each has
  a category among timeline, credibility, inconsistency, foundation, impeachment, general
  and a difficulty among easy, medium, hard; the two validators return their argument when
  it is in the enumeration and \<open>general\<close>, respectively \<open>medium\<close>, when it is not.
\<close>

theorem generated_questions_labelled:
  assumes "POST_generate_questions p cfg request llm = Success g"
  shows "length (questions g) \<le> 20 \<and> list_all well_labelled (questions g) \<and>
         validateCategory c = (if c \<in> set valid_categories then c else str ''general'') \<and>
         validateDifficulty d = (if d \<in> set valid_difficulties then d else str ''medium'')"
proof -
  from assms have "length (questions g) \<le> 20 \<and> list_all well_labelled (questions g)"
    by (auto simp: POST_generate_questions_def generateFallbackQuestions_length
        generateFallbackQuestions_labelled
        split: option.splits if_splits prod.splits dest: ask_llm_labelled)
  then show ?thesis by (simp add: validateCategory_def validateDifficulty_def)
qed

theorem generated_questions_labelled_witness:
  "\<exists>g. POST_generate_questions example_platform default_config (Some example_request)
          (Responds [fenced example_answer]) = Success g \<and>
        length (questions g) \<le> 20 \<and> list_all well_labelled (questions g) \<and>
        map category (questions g) = [str ''general'', str ''impeachment''] \<and>
        map difficulty (questions g) = [str ''medium'', str ''hard'']"
proof -
  have parsed: "parseJSONResponse (fenced example_answer) = Some example_answer_parsed"
    by (simp add: example_answer_def example_answer_parsed_def fenced_def chain_defs parse_defs)
  have mapped: "\<exists>q1 q2. map_questions example_platform 0 example_answer_parsed = (Some [q1, q2], 2) \<and>
      category q1 = str ''general'' \<and> difficulty q1 = str ''medium'' \<and>
      category q2 = str ''impeachment'' \<and> difficulty q2 = str ''hard''"
    by (simp add: example_answer_parsed_def mk_question_def get_prop_def string_or_def
        string_if_def follow_ups_def truthy_def validateCategory_def validateDifficulty_def
        valid_categories_def valid_difficulties_def example_platform_def str_def decimal.simps)
  then obtain q1 q2 where m: "map_questions example_platform 0 example_answer_parsed = (Some [q1, q2], 2)"
    and l: "category q1 = str ''general''" "difficulty q1 = str ''medium''"
      "category q2 = str ''impeachment''" "difficulty q2 = str ''hard''"
    by blast
  have ne: "fenced example_answer \<noteq> []" by (simp add: fenced_def fence_def)
  have len: "take 20 example_answer_parsed = example_answer_parsed" "example_answer_parsed \<noteq> []"
    by (simp_all add: example_answer_parsed_def)
  have valid: "req_witnessName example_request \<noteq> []" "req_caseName example_request \<noteq> []"
    "req_documents example_request \<noteq> []"
    by (simp_all add: example_request_def str_def)
  have "\<exists>g. POST_generate_questions example_platform default_config (Some example_request)
          (Responds [fenced example_answer]) = Success g \<and> questions g = [q1, q2]"
    using valid ne len
    by (simp add: POST_generate_questions_def ask_llm_def message_content_def Let_def parsed m)
  then obtain g where g: "POST_generate_questions example_platform default_config
      (Some example_request) (Responds [fenced example_answer]) = Success g"
    and q: "questions g = [q1, q2]" by blast
  from generated_questions_labelled [OF g] q l g show ?thesis by auto
qed

text \<open>
  C7. For a request that names a witness and a case and carries at least one document, when
  the remote call throws or its answer cannot be parsed by any strategy, the route answers
  with status 200, the static fallback set of exactly 20 questions and
  \<open>usedFallback = true\<close>; no error response is produced.
\<close>

theorem llm_failure_gives_fallback:
  assumes "req_witnessName b \<noteq> []" and "req_caseName b \<noteq> []" and "req_documents b \<noteq> []"
    and "llm_failed llm"
  shows "\<exists>g. POST_generate_questions p cfg (Some b) llm = Success g \<and>
             questions g = generateFallbackQuestions p 0 (req_witnessName b) (req_documents b) \<and>
             length (questions g) = 20 \<and> usedFallback g"
proof -
  obtain qs caught price chars k where a: "ask_llm p cfg b llm = (qs, caught, price, chars, k)"
    by (metis prod_cases5)
  with assms(4) have "qs = [] \<and> k = 0" by (rule ask_llm_failed)
  with a assms(1-3) show ?thesis
    by (simp add: POST_generate_questions_def generateFallbackQuestions_length)
qed

lemma unparseable_answer_failed: "llm_failed (Responds [str ''I cannot help with that.''])"
  by (simp add: llm_failed_def message_content_def chain_defs parse_defs)

theorem llm_failure_gives_fallback_witness:
  "req_witnessName example_request \<noteq> [] \<and> req_caseName example_request \<noteq> [] \<and>
   req_documents example_request \<noteq> [] \<and> llm_failed Throws \<and>
   llm_failed (Responds [str ''I cannot help with that.'']) \<and>
   (\<exists>g. POST_generate_questions example_platform default_config (Some example_request) Throws = Success g \<and>
        length (questions g) = 20 \<and> usedFallback g) \<and>
   (\<exists>g. POST_generate_questions example_platform default_config (Some example_request)
          (Responds [str ''I cannot help with that.'']) = Success g \<and>
        length (questions g) = 20 \<and> usedFallback g)"
proof -
  have valid: "req_witnessName example_request \<noteq> []" "req_caseName example_request \<noteq> []"
    "req_documents example_request \<noteq> []"
    by (simp_all add: example_request_def str_def)
  have f: "llm_failed Throws" by (simp add: llm_failed_def)
  note u = unparseable_answer_failed
  from valid f u
    llm_failure_gives_fallback [OF valid f, of example_platform default_config]
    llm_failure_gives_fallback [OF valid u, of example_platform default_config]
  show ?thesis by blast
qed

section \<open>The parse-fallback chain: theorems\<close>

text \<open>What a parser leaves unread is an end piece of what it was given.\<close>

lemma lex_string_suffix: "lex_string acc s = Some (t, r) \<Longrightarrow> suffix r s"
proof (induction acc s rule: lex_string.induct)
  case (1 acc)
  then show ?case by simp
next
  case (2 acc c cs)
  then show ?case
    by (auto split: if_splits list.splits option.splits simp: suffix_ConsI
        intro: suffix_ConsI)
qed

lemma lex_int_suffix: "lex_int s = Some (n, r) \<Longrightarrow> suffix r s"
  by (auto simp: lex_int_def suffix_dropWhile split: list.splits if_splits intro: suffix_ConsI)

lemma lex_frac_suffix: "lex_frac s = Some (f, r) \<Longrightarrow> suffix r s"
  by (auto simp: lex_frac_def Let_def suffix_dropWhile split: list.splits if_splits
      intro: suffix_ConsI)

lemma lex_exp_suffix: "lex_exp s = Some (e, r) \<Longrightarrow> suffix r s"
  by (auto simp: lex_exp_def Let_def suffix_dropWhile split: list.splits if_splits prod.splits
      intro: suffix_ConsI suffix_order.trans[OF suffix_dropWhile])

lemma lex_number_suffix: "lex_number s = Some (x, r) \<Longrightarrow> suffix r s"
  by (auto simp: lex_number_def Let_def split: list.splits if_splits prod.splits option.splits
      dest!: lex_int_suffix lex_frac_suffix lex_exp_suffix
      intro: suffix_ConsI suffix_order.trans)

lemma skip_ws_suffix: "suffix (skip_ws s) s"
  by (simp add: skip_ws_def suffix_dropWhile)

lemma skip_ws_Cons_suffix: "skip_ws s = d # ds \<Longrightarrow> suffix ds s"
  by (metis skip_ws_suffix suffix_ConsD)

lemma parse_suffix:
  "(parse_value n s = Some (v, r) \<longrightarrow> suffix r s) \<and>
   (parse_elements n es s = Some (v, r) \<longrightarrow> suffix r s) \<and>
   (parse_members n ms s = Some (v, r) \<longrightarrow> suffix r s)"
proof (induction n arbitrary: s v r es ms)
  case 0
  then show ?case by simp
next
  case (Suc n)
  have IHv: "\<And>s v r. parse_value n s = Some (v, r) \<Longrightarrow> suffix r s"
    and IHe: "\<And>s v r es. parse_elements n es s = Some (v, r) \<Longrightarrow> suffix r s"
    and IHm: "\<And>s v r ms. parse_members n ms s = Some (v, r) \<Longrightarrow> suffix r s"
    using Suc.IH by blast+
  have v: "suffix r s" if h: "parse_value (Suc n) s = Some (v, r)"
  proof (cases "skip_ws s")
    case Nil
    with h show ?thesis by simp
  next
    case (Cons c cs)
    have cs: "suffix cs s" using Cons by (rule skip_ws_Cons_suffix)
    have ccs: "suffix (c # cs) s" using Cons skip_ws_suffix[of s] by simp
    from h Cons show ?thesis
      by (auto split: if_splits list.splits option.splits
          dest!: IHe IHm lex_string_suffix lex_number_suffix skip_ws_Cons_suffix
          intro: suffix_order.trans[OF _ cs] suffix_order.trans[OF _ ccs] suffix_drop)
  qed
  have e: "suffix r s" if h: "parse_elements (Suc n) es s = Some (v, r)"
    using h
    by (auto split: if_splits list.splits option.splits
        dest!: IHv IHe skip_ws_Cons_suffix intro: suffix_order.trans)
  have m: "suffix r s" if h: "parse_members (Suc n) ms s = Some (v, r)"
  proof (cases "skip_ws s")
    case Nil
    with h show ?thesis by simp
  next
    case (Cons c cs)
    have cs: "suffix cs s" using Cons by (rule skip_ws_Cons_suffix)
    from h Cons cs show ?thesis
      apply (auto split: if_splits list.splits option.splits
          dest!: IHv IHm lex_string_suffix skip_ws_Cons_suffix)
       apply (meson suffix_order.trans)+
      done
  qed
  from v e m show ?case by blast
qed

lemma parse_elements_last:
  "parse_elements n es s = Some (v, []) \<Longrightarrow> s \<noteq> [] \<and> last s = 93"
proof (induction n arbitrary: es s)
  case 0
  then show ?case by simp
next
  case (Suc n)
  from Suc.prems obtain v1 r1 where pv: "parse_value n s = Some (v1, r1)"
    by (auto split: option.splits)
  then have r1: "suffix r1 s" using parse_suffix by blast
  from Suc.prems pv obtain d ds where sk: "skip_ws r1 = d # ds"
    by (auto split: list.splits)
  then have "suffix (d # ds) r1" using skip_ws_suffix[of r1] by simp
  then have dds: "suffix (d # ds) s" using r1 by (rule suffix_order.trans)
  then obtain pre where s: "s = pre @ d # ds" by (auto simp: suffix_def)
  show ?case
  proof (cases "d = 44")
    case True
    with Suc.prems pv sk have "parse_elements n (es @ [v1]) ds = Some (v, [])" by simp
    then have "ds \<noteq> [] \<and> last ds = 93" by (rule Suc.IH)
    with s show ?thesis by simp
  next
    case False
    with Suc.prems pv sk have "d = 93 \<and> ds = []" by (auto split: if_splits)
    with s show ?thesis by simp
  qed
qed

lemma parse_members_object:
  "parse_members n ms s = Some (v, r) \<Longrightarrow> \<exists>kvs. v = JObj kvs"
proof (induction n arbitrary: ms s)
  case 0
  then show ?case by simp
next
  case (Suc n)
  then show ?case
    by (auto split: list.splits if_splits option.splits)
qed

lemma parse_value_array_shape:
  assumes "parse_value n t = Some (JArr xs, [])" and "skip_ws t = t"
  shows "t \<noteq> [] \<and> hd t = 91 \<and> last t = 93"
proof (cases n)
  case 0
  with assms show ?thesis by simp
next
  case (Suc m)
  from assms Suc obtain c cs where t: "t = c # cs"
    by (cases t) (auto split: list.splits)
  from assms Suc t have c: "c = 91"
    by (auto split: if_splits list.splits option.splits dest: parse_members_object)
  show ?thesis
  proof (cases "skip_ws cs")
    case Nil
    with assms Suc t c show ?thesis by simp
  next
    case (Cons d ds)
    then have "suffix (d # ds) cs" using skip_ws_suffix[of cs] by simp
    then obtain pre where cs: "cs = pre @ d # ds" by (auto simp: suffix_def)
    show ?thesis
    proof (cases "d = 93")
      case True
      with assms Suc t c Cons have "ds = []" by simp
      with cs True t c show ?thesis by simp
    next
      case False
      with assms Suc t c Cons have "parse_elements m [] cs = Some (JArr xs, [])" by simp
      then have "cs \<noteq> [] \<and> last cs = 93" by (rule parse_elements_last)
      with t c show ?thesis by simp
    qed
  qed
qed

lemma json_ws_js_ws: "is_json_ws c \<Longrightarrow> is_js_ws c"
  by (auto simp: is_json_ws_def is_js_ws_def)

lemma dropWhile_rev_split:
  "\<exists>b. s = rev (dropWhile P (rev s)) @ b \<and> list_all P b"
proof -
  have "rev s = takeWhile P (rev s) @ dropWhile P (rev s)" by simp
  then have "s = rev (dropWhile P (rev s)) @ rev (takeWhile P (rev s))"
    by (metis rev_append rev_rev_ident)
  moreover have "list_all P (rev (takeWhile P (rev s)))"
    by (simp add: list_all_iff) (meson set_takeWhileD)
  ultimately show ?thesis by blast
qed

lemma json_trim_split:
  "\<exists>a b. s = a @ json_trim s @ b \<and> list_all is_json_ws a \<and> list_all is_json_ws b"
proof -
  obtain b where b: "dropWhile is_json_ws s = json_trim s @ b" "list_all is_json_ws b"
    using dropWhile_rev_split[of "dropWhile is_json_ws s" is_json_ws]
    by (auto simp: json_trim_def)
  have "s = takeWhile is_json_ws s @ dropWhile is_json_ws s" by simp
  moreover have "list_all is_json_ws (takeWhile is_json_ws s)"
    by (simp add: list_all_iff) (meson set_takeWhileD)
  ultimately show ?thesis using b by metis
qed

lemma trim_core:
  assumes "t \<noteq> []" "\<not> P (hd t)" "\<not> P (last t)" "list_all P a" "list_all P b"
  shows "rev (dropWhile P (rev (dropWhile P (a @ t @ b)))) = t"
proof -
  from assms have 1: "dropWhile P (a @ t @ b) = t @ b"
    by (cases t) (auto simp: dropWhile_append list_all_iff)
  from assms have "dropWhile P (rev b @ rev t) = rev t"
    by (cases "rev t") (auto simp: dropWhile_append list_all_iff last_rev hd_rev)
  with 1 show ?thesis by simp
qed

lemma fence_tail_long: "length s > 3 \<Longrightarrow> last s = 96 \<Longrightarrow> \<not> fence_tail s"
proof
  assume l: "length s > 3" and e: "last s = 96" and f: "fence_tail s"
  from l have ne: "drop 3 s \<noteq> []" by simp
  from l have eq: "last (drop 3 s) = last s" by (simp add: last_drop)
  from ne have "last (drop 3 s) \<in> set (drop 3 s)" by (rule last_in_set)
  then have "last s \<in> set (drop 3 s)" by (simp only: eq)
  with f e have "is_js_ws 96"
    by (auto simp: fence_tail_def list_all_iff)
  then show False by (simp add: is_js_ws_def)
qed

lemma strip_close_fence_fenced: "strip_close_fence (u @ [10] @ fence) = u"
proof (induction u)
  case Nil
  show ?case by (simp add: close_here_def fence_tail_def fence_def)
next
  case (Cons c u)
  have "\<not> fence_tail (u @ [10] @ fence)"
    by (rule fence_tail_long) (simp_all add: fence_def)
  moreover have "\<not> fence_tail (c # u @ [10] @ fence)"
    by (rule fence_tail_long) (simp_all add: fence_def)
  ultimately have "\<not> close_here ((c # u) @ [10] @ fence)"
    by (simp add: close_here_def)
  with Cons show ?case by simp
qed

lemma fenced_clean:
  assumes t: "t \<noteq> []" "\<not> is_js_ws (hd t)" "\<not> is_js_ws (last t)"
    and a: "list_all is_json_ws a" and b: "list_all is_json_ws b"
  shows "clean (fenced (a @ t @ b)) = t"
proof -
  let ?J = "a @ t @ b"
  have a': "list_all is_js_ws a" and b': "list_all is_js_ws b"
    using a b by (auto simp: list_all_iff json_ws_js_ws)
  have 1: "trim (fenced ?J) = fenced ?J"
    using trim_core[of "fenced ?J" is_js_ws "[]" "[]"]
    by (simp add: trim_def fenced_def fence_def is_js_ws_def)
  have 2: "strip_bom (fenced ?J) = fenced ?J"
    by (simp add: strip_bom_def fenced_def fence_def)
  have 3: "strip_open_fence (fenced ?J) = dropWhile is_js_ws ([10] @ a @ t @ b @ [10] @ fence)"
    by (simp add: strip_open_fence_def fenced_def fence_def str_def toLowerCase_def lower_unit_def Let_def)
  have "list_all is_js_ws ([10] @ a)" using a' by (simp add: is_js_ws_def)
  then have 4: "dropWhile is_js_ws (([10] @ a) @ t @ b @ [10] @ fence) = t @ b @ [10] @ fence"
    using t by (cases t) (auto simp: dropWhile_append list_all_iff simp del: append_Cons)
  have 5: "strip_close_fence ((t @ b) @ [10] @ fence) = t @ b"
    by (rule strip_close_fence_fenced)
  have 6: "trim ([] @ t @ b) = t"
    unfolding trim_def using t b' by (intro trim_core) simp_all
  from 1 2 3 4 5 6 show ?thesis by (simp add: clean_def)
qed

lemma JSON_parse_array_split:
  assumes "JSON_parse J = Some (JArr xs)"
  shows "\<exists>a t b. J = a @ t @ b \<and> list_all is_json_ws a \<and> list_all is_json_ws b \<and>
           t \<noteq> [] \<and> hd t = 91 \<and> last t = 93 \<and> json_trim J = t"
proof -
  let ?t = "json_trim J"
  from assms have p: "parse_value (Suc (length ?t)) ?t = Some (JArr xs, [])"
    by (auto simp: JSON_parse_def Let_def split: option.splits list.splits)
  have ne: "?t \<noteq> []" using p by (auto simp: skip_ws_def)
  have "\<not> is_json_ws (hd ?t)"
  proof -
    have "rev (json_trim J) = dropWhile is_json_ws (rev (dropWhile is_json_ws J))"
      by (simp add: json_trim_def)
    obtain b where b: "dropWhile is_json_ws J = ?t @ b"
      using dropWhile_rev_split[of "dropWhile is_json_ws J" is_json_ws]
      by (auto simp: json_trim_def)
    with ne have "hd ?t = hd (dropWhile is_json_ws J)" by simp
    moreover from b ne have "dropWhile is_json_ws J \<noteq> []" by auto
    ultimately show ?thesis using hd_dropWhile by metis
  qed
  then have "skip_ws ?t = ?t" using ne by (cases ?t) (auto simp: skip_ws_def)
  with p have "?t \<noteq> [] \<and> hd ?t = 91 \<and> last ?t = 93" by (rule parse_value_array_shape)
  with json_trim_split[of J] show ?thesis by metis
qed

lemma json_trim_core:
  assumes "t \<noteq> []" "hd t = 91" "last t = 93" "list_all is_json_ws a" "list_all is_json_ws b"
  shows "json_trim (a @ t @ b) = t"
  unfolding json_trim_def using assms by (intro trim_core) (simp_all add: is_json_ws_def)

lemma JSON_parse_fence_fails: "JSON_parse (fenced J) = None"
proof -
  have "json_trim (fenced J) = fenced J"
    unfolding json_trim_def
    using trim_core[of "fenced J" is_json_ws "[]" "[]"]
    by (simp add: fenced_def fence_def is_json_ws_def)
  moreover have "parse_value (Suc n) (fenced J) = None" for n
    by (simp add: fenced_def fence_def skip_ws_def is_json_ws_def str_def lex_number_def
        lex_int_def is_digit_def)
  ultimately show ?thesis by (simp add: JSON_parse_def)
qed


text \<open>
  C8. For every text \<open>J\<close> that strict JSON parsing reads as an array, the second strategy
  applied to \<open>J\<close> wrapped in Markdown code fences gives that same array, which is what the
  first strategy gives for \<open>J\<close> itself; it is also the result of the whole chain on the
  wrapped text.
\<close>

theorem strategy2_fenced:
  assumes "JSON_parse J = Some (JArr xs)"
  shows "strategy2 (fenced J) = strategy1 J \<and> strategy1 J = Some xs \<and>
         parseJSONResponse (fenced J) = Some xs"
proof -
  from assms obtain a t b where J: "J = a @ t @ b" and a: "list_all is_json_ws a"
    and b: "list_all is_json_ws b" and t: "t \<noteq> []" "hd t = 91" "last t = 93"
    and jt: "json_trim J = t"
    using JSON_parse_array_split by blast
  have "clean (fenced J) = t"
    unfolding J using t a b by (intro fenced_clean) (simp_all add: is_js_ws_def)
  moreover have "json_trim t = t"
    using json_trim_core[of t "[]" "[]"] t by simp
  ultimately have "JSON_parse (clean (fenced J)) = JSON_parse J"
    using jt by (simp add: JSON_parse_def)
  with assms have s2: "strategy2 (fenced J) = Some xs"
    by (simp add: strategy2_def as_array_def)
  have s1: "strategy1 J = Some xs" using assms by (simp add: strategy1_def as_array_def)
  have "strategy1 (fenced J) = None"
    by (simp add: strategy1_def JSON_parse_fence_fails as_array_def)
  with s1 s2 show ?thesis by (simp add: parseJSONResponse_def)
qed

theorem strategy2_fenced_witness:
  "JSON_parse example_answer = Some (JArr example_answer_parsed) \<and>
   strategy2 (fenced example_answer) = Some example_answer_parsed \<and>
   parseJSONResponse (fenced example_answer) = Some example_answer_parsed"
proof -
  have h: "JSON_parse example_answer = Some (JArr example_answer_parsed)"
    by (simp add: example_answer_def example_answer_parsed_def parse_defs)
  from h strategy2_fenced [OF h] show ?thesis by simp
qed

section \<open>The usage ledger: theorems\<close>

text \<open>Adding hours to the hour of the local clock adds them to the local time.\<close>

lemma add_hours_eq:
  "add_hours p h t = utc_time p (local_time p t + h * 3600000)"
proof -
  define l where "l = local_time p t"
  define q where "q = l div 3600000"
  have d: "l div 86400000 = q div 24"
    using zdiv_zmult2_eq [of 24 l 3600000] by (simp add: q_def)
  have "q div 24 * 24 + q mod 24 = q" by simp
  then have "q div 24 * 86400000 + q mod 24 * 3600000 = q * 3600000" by presburger
  moreover have "q * 3600000 + l mod 3600000 = l" by (simp add: q_def)
  ultimately have "l div 86400000 * 86400000 + ((q mod 24 + h) * 3600000 + l mod 3600000) =
      l + h * 3600000"
    by (simp add: d algebra_simps)
  then have e: "local_time p t div 86400000 * 86400000 +
      ((local_time p t div 3600000 mod 24 + h) * 3600000 + local_time p t mod 3600000) =
      local_time p t + h * 3600000"
    by (simp only: l_def q_def)
  show ?thesis
    by (simp only: add_hours_def setHours_def getHours_def Let_def e)
qed


lemma add_hours_example:
  "add_hours example_platform h t = t + h * 3600000"
  by (simp add: add_hours_eq utc_time_def local_time_def example_platform_def)

lemma getSessionResetTime_valid:
  "valid_time (add_hours p hours now) \<Longrightarrow>
     getSessionResetTime p hours now = Inr (add_hours p hours now)"
  by (simp add: getSessionResetTime_def Let_def)

text \<open>
  A read at or after the reset instant of the stored ledger returns the zeroed record and
  leaves it in the store.
\<close>

lemma rollover_read:
  assumes "reset_instant p item = Some t" and "t \<le> now"
    and "valid_time (add_hours p (sessionHours cfg) now)"
  shows "getSessionStats p cfg now (Some item) =
           (Inr (Stats (fresh_stats p cfg now)), Some (Some (Written (Stats (fresh_stats p cfg now)))))"
  using assms
  by (auto simp: reset_instant_def stored_value_def getSessionStats_def getSessionResetTime_valid
      fresh_stats_def Let_def split: option.splits stats_value.splits if_splits)




text \<open>Before its window ends, a stored record is returned as it is and the store is not written.\<close>

lemma ledger_kept:
  assumes "now < sessionResetAt st" and "valid_time (add_hours p (sessionHours cfg) now)"
  shows "getSessionStats p cfg now (Some (Some (Written (Stats st)))) =
           (Inr (Stats st), Some (Some (Written (Stats st))))"
  using assms
  by (simp add: getSessionStats_def getSessionResetTime_valid parse_blob_def Let_def)

text \<open>A second read at the same instant returns what the first returned.\<close>

lemma getSessionStats_again:
  "fst (getSessionStats p cfg now (snd (getSessionStats p cfg now w))) =
   fst (getSessionStats p cfg now w)"
  by (auto simp: getSessionStats_def Let_def parse_blob_def getSessionResetTime_def
      split: option.splits stats_value.splits if_splits sum.splits)

lemma getSessionStats_cases:
  assumes "valid_time (add_hours p (sessionHours cfg) now)"
  shows "\<exists>v w'. getSessionStats p cfg now (Some item) = (Inr v, w') \<and>
           ((v = Stats (fresh_stats p cfg now) \<and>
             (w' = Some item \<or> w' = Some (Some (Written (Stats (fresh_stats p cfg now)))))) \<or>
            (stored_value item = Some v \<and> w' = Some item))"
  using assms
  by (auto simp: getSessionStats_def getSessionResetTime_valid fresh_stats_def Let_def
      stored_value_def
      split: option.splits stats_value.splits if_splits)

text \<open>
  C9, as the code has it. When the reset time is a valid date the read does not throw. It
  returns the zeroed default record when the key is missing, its text is empty or the text
  is not JSON (and stores that record when the key is missing); in every other case it
  returns either the zeroed record or the parsed value exactly as it is stored, whatever
  its shape.
\<close>

theorem getSessionStats_total:
  assumes "valid_time (add_hours p (sessionHours cfg) now)"
  shows "(\<exists>v. fst (getSessionStats p cfg now (Some item)) = Inr v \<and>
              (v = Stats (fresh_stats p cfg now) \<or> stored_value item = Some v)) \<and>
         (stored_value item = None \<longrightarrow>
            fst (getSessionStats p cfg now (Some item)) = Inr (Stats (fresh_stats p cfg now))) \<and>
         (item = None \<longrightarrow>
            snd (getSessionStats p cfg now (Some item)) =
              Some (Some (Written (Stats (fresh_stats p cfg now)))))"
proof -
  from getSessionStats_cases [OF assms, of item]
  obtain v w' where g: "getSessionStats p cfg now (Some item) = (Inr v, w')"
    and c: "v = Stats (fresh_stats p cfg now) \<or> stored_value item = Some v"
    by auto
  have m: "item = None \<longrightarrow> snd (getSessionStats p cfg now (Some item)) =
      Some (Some (Written (Stats (fresh_stats p cfg now))))"
    using assms
    by (simp add: getSessionStats_def getSessionResetTime_valid fresh_stats_def Let_def)
  from g c m show ?thesis by auto
qed

theorem getSessionStats_total_witness:
  "valid_time (add_hours example_platform (sessionHours default_config) 1000) \<and>
   stored_value (Some (Raw (str ''{oops''))) = None \<and>
   fst (getSessionStats example_platform default_config 1000 (Some (Some (Raw (str ''{oops''))))) =
     Inr (Stats (fresh_stats example_platform default_config 1000)) \<and>
   snd (getSessionStats example_platform default_config 1000 (Some None)) =
     Some (Some (Written (Stats (fresh_stats example_platform default_config 1000))))"
proof -
  have v: "valid_time (add_hours example_platform (sessionHours default_config) 1000)"
    by (simp add: add_hours_example valid_time_def default_config_def)
  have n: "stored_value (Some (Raw (str ''{oops''))) = None"
    by (simp add: stored_value_def parse_blob_def parse_defs)
  from v n getSessionStats_total [OF v, of "Some (Raw (str ''{oops''))"]
    getSessionStats_total [OF v, of None]
  show ?thesis by simp
qed

text \<open>
  The stored text \<open>{}\<close> is valid JSON: the read returns the empty object, which has none
  of the fields of \<open>SessionStats\<close>.
\<close>

theorem stats_not_validated:
  "fst (getSessionStats example_platform default_config 1000 (Some (Some (Raw (str ''{}''))))) =
     Inr (Foreign (JObj [])) \<and>
   \<not> well_formed_stats (Foreign (JObj []))"
  by (simp add: getSessionStats_def getSessionResetTime_def add_hours_example valid_time_def default_config_def
      Let_def parse_blob_def parse_defs to_date_def get_prop_def well_formed_stats_def is_num_def)

section \<open>Session reset: theorems\<close>

lemma read_stats_kept:
  assumes "stats_item st = Some (Written (Stats l))" and "now < sessionResetAt l"
    and "valid_time (add_hours p (sessionHours cfg) now)"
  shows "read_stats p cfg now st = (Inr (Stats l), st)"
  using assms by (simp add: read_stats_def ledger_kept)

lemma read_stats_cases:
  assumes "valid_time (add_hours p (sessionHours cfg) now)"
  shows "\<exists>v st'. read_stats p cfg now st = (Inr v, st') \<and>
           (st' = st \<or> st' = st\<lparr>stats_item := Some (Written (Stats (fresh_stats p cfg now)))\<rparr>)"
proof -
  from getSessionStats_cases [OF assms, of "stats_item st"]
  obtain v w' where g: "getSessionStats p cfg now (Some (stats_item st)) = (Inr v, w')"
    and w: "w' = Some (stats_item st) \<or> w' = Some (Some (Written (Stats (fresh_stats p cfg now))))"
    by auto
  from g w show ?thesis by (auto simp: read_stats_def)
qed

lemma read_stats_rollover:
  assumes "reset_instant p (stats_item st) = Some t" and "t \<le> now"
    and "valid_time (add_hours p (sessionHours cfg) now)"
  shows "read_stats p cfg now st =
           (Inr (Stats (fresh_stats p cfg now)),
            st\<lparr>stats_item := Some (Written (Stats (fresh_stats p cfg now)))\<rparr>)"
  using rollover_read [OF assms] by (simp add: read_stats_def)

lemma read_stats_missing:
  assumes "stats_item st = None" and "valid_time (add_hours p (sessionHours cfg) now)"
  shows "read_stats p cfg now st =
           (Inr (Stats (fresh_stats p cfg now)),
            st\<lparr>stats_item := Some (Written (Stats (fresh_stats p cfg now)))\<rparr>)"
  using assms
  by (simp add: read_stats_def getSessionStats_def getSessionResetTime_valid fresh_stats_def Let_def)

text \<open>
  C4, as the code has it. When the reset time is a valid date, a reset of an active session
  returns either tool to the setup step and clears its session and its form; the testimony
  tool deletes the persisted record of that session, the deposition tool removes the
  reference to the current session. The reset ends with a read of the statistics, which
  leaves the ledger as it is or replaces it by the zeroed record: a stored record whose
  window has not ended is left as it is, and a ledger whose reset instant is not after
  \<open>now\<close>, or that is missing from the store, is replaced by the zeroed record.
\<close>

theorem reset_returns_to_setup:
  assumes v: "valid_time (add_hours p (sessionHours cfg) now)"
    and ts: "t_session tui = Some ts" and ds: "d_session dui = Some ds"
  shows "\<exists>tui' st1 dui' st2.
           resetToSetup_testimony p cfg now (tui, st) = Inr (tui', st1) \<and>
           t_currentStep tui' = Setup \<and> t_session tui' = None \<and> t_witnessName tui' = [] \<and>
           t_caseName tui' = [] \<and> t_currentQuestionIndex tui' = 0 \<and> t_witnessResponse tui' = [] \<and>
           t_lastAIResponse tui' = None \<and> \<not> t_showFeedback tui' \<and> t_error tui' = None \<and>
           t_limitReached tui' = None \<and>
           getSession st1 (ps_id ts) = None \<and>
           (stats_item st1 = stats_item st \<or>
            stats_item st1 = Some (Written (Stats (fresh_stats p cfg now)))) \<and>
           resetToSetup_deposition p cfg now (dui, st) = Inr (dui', st2) \<and>
           d_currentStep dui' = Setup \<and> d_session dui' = None \<and> d_deponentName dui' = [] \<and>
           d_caseName dui' = [] \<and> d_caseNumber dui' = [] \<and> d_error dui' = None \<and>
           d_limitReached dui' = None \<and> d_expandedQuestions dui' = [] \<and>
           d_selectedTopic dui' = None \<and> d_selectedPriority dui' = None \<and>
           current_deposition st2 = None \<and>
           (stats_item st2 = stats_item st \<or>
            stats_item st2 = Some (Written (Stats (fresh_stats p cfg now)))) \<and>
           (\<forall>l. stats_item st = Some (Written (Stats l)) \<and> now < sessionResetAt l \<longrightarrow>
                stats_item st1 = stats_item st \<and> stats_item st2 = stats_item st) \<and>
           (\<forall>t. reset_instant p (stats_item st) = Some t \<and> t \<le> now \<longrightarrow>
                stats_item st1 = Some (Written (Stats (fresh_stats p cfg now))) \<and>
                stats_item st2 = Some (Written (Stats (fresh_stats p cfg now)))) \<and>
           (stats_item st = None \<longrightarrow>
                stats_item st1 = Some (Written (Stats (fresh_stats p cfg now))) \<and>
                stats_item st2 = Some (Written (Stats (fresh_stats p cfg now))))"
proof -
  let ?sd = "deleteSession st (ps_id ts)"
  let ?F = "Some (Written (Stats (fresh_stats p cfg now)))"
  have sd: "stats_item ?sd = stats_item st" by (simp add: deleteSession_def)
  from read_stats_cases [OF v, of ?sd]
  obtain v1 st1 where r1: "read_stats p cfg now ?sd = (Inr v1, st1)"
    and c1: "st1 = ?sd \<or> st1 = ?sd\<lparr>stats_item := ?F\<rparr>"
    by blast
  from read_stats_cases [OF v, of st]
  obtain v2 st2 where r2: "read_stats p cfg now st = (Inr v2, st2)"
    and c2: "st2 = st \<or> st2 = st\<lparr>stats_item := ?F\<rparr>"
    by blast
  have k: "stats_item st1 = stats_item st \<and> stats_item st2 = stats_item st"
    if "stats_item st = Some (Written (Stats l))" "now < sessionResetAt l" for l
  proof -
    have "stats_item ?sd = Some (Written (Stats l))" using that sd by simp
    from read_stats_kept [OF this that(2) v] r1 have "st1 = ?sd" by simp
    moreover from read_stats_kept [OF that v] r2 have "st2 = st" by simp
    ultimately show ?thesis by (simp add: deleteSession_def)
  qed
  have e: "stats_item st1 = ?F \<and> stats_item st2 = ?F"
    if "reset_instant p (stats_item st) = Some t" "t \<le> now" for t
  proof -
    have "reset_instant p (stats_item ?sd) = Some t" using that sd by simp
    from read_stats_rollover [OF this that(2) v] r1 have "st1 = ?sd\<lparr>stats_item := ?F\<rparr>" by simp
    moreover from read_stats_rollover [OF that v] r2 have "st2 = st\<lparr>stats_item := ?F\<rparr>" by simp
    ultimately show ?thesis by simp
  qed
  have m: "stats_item st1 = ?F \<and> stats_item st2 = ?F" if "stats_item st = None"
  proof -
    have "stats_item ?sd = None" using that sd by simp
    from read_stats_missing [OF this v] r1 have "st1 = ?sd\<lparr>stats_item := ?F\<rparr>" by simp
    moreover from read_stats_missing [OF that v] r2 have "st2 = st\<lparr>stats_item := ?F\<rparr>" by simp
    ultimately show ?thesis by simp
  qed
  have t: "resetToSetup_testimony p cfg now (tui, st) =
      Inr (tui\<lparr>t_session := None, t_currentStep := Setup, t_witnessName := [],
                t_caseName := [], t_currentQuestionIndex := 0, t_witnessResponse := [],
                t_lastAIResponse := None, t_showFeedback := False, t_error := None,
                t_limitReached := None\<rparr>, st1)"
    using ts r1 by (simp add: resetToSetup_testimony_def Let_def)
  have d: "resetToSetup_deposition p cfg now (dui, st) =
      Inr (dui\<lparr>d_session := None, d_currentStep := Setup, d_deponentName := [],
                d_caseName := [], d_caseNumber := [], d_error := None,
                d_limitReached := None, d_expandedQuestions := [], d_selectedTopic := None,
                d_selectedPriority := None\<rparr>, st2\<lparr>current_deposition := None\<rparr>)"
    using r2 by (simp add: resetToSetup_deposition_def Let_def)
  have g: "getSession st1 (ps_id ts) = None"
    using c1 by (auto simp: getSession_def deleteSession_def)
  have s1: "stats_item st1 = stats_item st \<or> stats_item st1 = ?F"
    using c1 by (auto simp: deleteSession_def)
  have s2: "stats_item (st2\<lparr>current_deposition := None\<rparr>) = stats_item st \<or>
      stats_item (st2\<lparr>current_deposition := None\<rparr>) = ?F"
    using c2 by auto
  have k': "\<forall>l. stats_item st = Some (Written (Stats l)) \<and> now < sessionResetAt l \<longrightarrow>
      stats_item st1 = stats_item st \<and> stats_item st2 = stats_item st"
    using k by blast
  have e': "\<forall>t. reset_instant p (stats_item st) = Some t \<and> t \<le> now \<longrightarrow>
      stats_item st1 = ?F \<and> stats_item st2 = ?F"
    using e by blast
  from t d g s1 s2 k' e' m show ?thesis by simp
qed

theorem reset_returns_to_setup_witness:
  "valid_time (add_hours example_platform (sessionHours default_config) 5000) \<and>
   valid_time (add_hours example_platform (sessionHours default_config) 90000000) \<and>
   t_session example_testimony_ui = Some example_session \<and>
   d_session example_deposition_ui = Some example_deposition \<and>
   stats_item example_store = Some (Written (Stats example_ledger)) \<and>
   5000 < sessionResetAt example_ledger \<and>
   reset_instant example_platform (stats_item example_store) = Some 86401000 \<and>
   (86401000::int) \<le> 90000000 \<and>
   stats_item (example_store\<lparr>stats_item := None\<rparr>) = None \<and>
   (\<exists>tui' st1 dui' st2.
      resetToSetup_testimony example_platform default_config 5000
        (example_testimony_ui, example_store) = Inr (tui', st1) \<and>
      t_currentStep tui' = Setup \<and> t_session tui' = None \<and>
      getSession st1 (ps_id example_session) = None \<and>
      stats_item st1 = stats_item example_store \<and>
      resetToSetup_deposition example_platform default_config 5000
        (example_deposition_ui, example_store) = Inr (dui', st2) \<and>
      d_currentStep dui' = Setup \<and> d_session dui' = None \<and>
      current_deposition st2 = None \<and>
      stats_item st2 = stats_item example_store) \<and>
   (\<exists>tui' st1 dui' st2.
      resetToSetup_testimony example_platform default_config 90000000
        (example_testimony_ui, example_store) = Inr (tui', st1) \<and>
      stats_item st1 = Some (Written (Stats (fresh_stats example_platform default_config 90000000))) \<and>
      resetToSetup_deposition example_platform default_config 90000000
        (example_deposition_ui, example_store) = Inr (dui', st2) \<and>
      stats_item st2 = Some (Written (Stats (fresh_stats example_platform default_config 90000000)))) \<and>
   (\<exists>tui' st1 dui' st2.
      resetToSetup_testimony example_platform default_config 5000
        (example_testimony_ui, example_store\<lparr>stats_item := None\<rparr>) = Inr (tui', st1) \<and>
      stats_item st1 = Some (Written (Stats (fresh_stats example_platform default_config 5000))) \<and>
      resetToSetup_deposition example_platform default_config 5000
        (example_deposition_ui, example_store\<lparr>stats_item := None\<rparr>) = Inr (dui', st2) \<and>
      stats_item st2 = Some (Written (Stats (fresh_stats example_platform default_config 5000))))"
proof -
  have v: "valid_time (add_hours example_platform (sessionHours default_config) 5000)"
    by (simp add: add_hours_example valid_time_def default_config_def)
  have v': "valid_time (add_hours example_platform (sessionHours default_config) 90000000)"
    by (simp add: add_hours_example valid_time_def default_config_def)
  have t: "t_session example_testimony_ui = Some example_session"
    by (simp add: example_testimony_ui_def)
  have d: "d_session example_deposition_ui = Some example_deposition"
    by (simp add: example_deposition_ui_def)
  have l: "stats_item example_store = Some (Written (Stats example_ledger))"
    "5000 < sessionResetAt example_ledger"
    by (simp_all add: example_store_def example_ledger_def)
  have i: "reset_instant example_platform (stats_item example_store) = Some 86401000"
    "(86401000::int) \<le> 90000000"
    by (simp_all add: reset_instant_def stored_value_def parse_blob_def example_store_def
        example_ledger_def)
  have n: "stats_item (example_store\<lparr>stats_item := None\<rparr>) = None" by simp
  have a: "\<exists>tui' st1 dui' st2.
      resetToSetup_testimony example_platform default_config 5000
        (example_testimony_ui, example_store) = Inr (tui', st1) \<and>
      t_currentStep tui' = Setup \<and> t_session tui' = None \<and>
      getSession st1 (ps_id example_session) = None \<and>
      stats_item st1 = stats_item example_store \<and>
      resetToSetup_deposition example_platform default_config 5000
        (example_deposition_ui, example_store) = Inr (dui', st2) \<and>
      d_currentStep dui' = Setup \<and> d_session dui' = None \<and>
      current_deposition st2 = None \<and>
      stats_item st2 = stats_item example_store"
    using reset_returns_to_setup [OF v t d, of example_store] l by blast
  have b: "\<exists>tui' st1 dui' st2.
      resetToSetup_testimony example_platform default_config 90000000
        (example_testimony_ui, example_store) = Inr (tui', st1) \<and>
      stats_item st1 = Some (Written (Stats (fresh_stats example_platform default_config 90000000))) \<and>
      resetToSetup_deposition example_platform default_config 90000000
        (example_deposition_ui, example_store) = Inr (dui', st2) \<and>
      stats_item st2 = Some (Written (Stats (fresh_stats example_platform default_config 90000000)))"
    using reset_returns_to_setup [OF v' t d, of example_store] i by blast
  have c: "\<exists>tui' st1 dui' st2.
      resetToSetup_testimony example_platform default_config 5000
        (example_testimony_ui, example_store\<lparr>stats_item := None\<rparr>) = Inr (tui', st1) \<and>
      stats_item st1 = Some (Written (Stats (fresh_stats example_platform default_config 5000))) \<and>
      resetToSetup_deposition example_platform default_config 5000
        (example_deposition_ui, example_store\<lparr>stats_item := None\<rparr>) = Inr (dui', st2) \<and>
      stats_item st2 = Some (Written (Stats (fresh_stats example_platform default_config 5000)))"
    using reset_returns_to_setup [OF v t d, of "example_store\<lparr>stats_item := None\<rparr>"] n by blast
  from v v' t d l i n a b c show ?thesis by (simp only: simp_thms)
qed

text \<open>
  At an instant after the end of the stored window, the reset of the testimony tool
  replaces the ledger record (two dollars spent, three documents) by the zeroed record.
\<close>

theorem reset_rolls_ledger_over:
  "(case resetToSetup_testimony example_platform default_config 90000000
           (example_testimony_ui, example_store) of
      Inl e \<Rightarrow> None
    | Inr (ui', st') \<Rightarrow> stats_item st') =
     Some (Written (Stats \<lparr>documentsUploaded = 0, totalStorageUsed = 0, sessionPrice = 0,
        sessionStartAt = 90000000, sessionResetAt = 176400000\<rparr>)) \<and>
   stats_item example_store =
     Some (Written (Stats \<lparr>documentsUploaded = 3, totalStorageUsed = 0, sessionPrice = 2,
        sessionStartAt = 1000, sessionResetAt = 86401000\<rparr>))"
  by (simp add: resetToSetup_testimony_def read_stats_def getSessionStats_def
      getSessionResetTime_def add_hours_example valid_time_def parse_blob_def deleteSession_def Let_def
      default_config_def example_testimony_ui_def example_store_def example_ledger_def)

section \<open>The price ceiling: theorems\<close>

lemma ask_llm_price:
  "ask_llm p cfg b (Responds choices) = (qs, caught, price, chars, k) \<Longrightarrow>
     chars = length (systemPrompt p (req_witnessName b) @ userPrompt b @ message_content choices) \<and>
     price = (of_nat chars / 1000) * pricePerThousandChars cfg"
  by (auto simp: ask_llm_def Let_def split: if_splits option.splits prod.splits)

lemma POST_valid_request:
  assumes "req_witnessName b \<noteq> []" and "req_caseName b \<noteq> []" and "req_documents b \<noteq> []"
  shows "\<exists>g. POST_generate_questions p cfg (Some b) llm = Success g \<and> questions g \<noteq> [] \<and>
             (\<forall>choices. llm = Responds choices \<longrightarrow>
                cost g = (of_nat (length (systemPrompt p (req_witnessName b) @ userPrompt b @
                            message_content choices)) / 1000) * pricePerThousandChars cfg)"
proof -
  obtain qs caught price chars k where a: "ask_llm p cfg b llm = (qs, caught, price, chars, k)"
    by (metis prod_cases5)
  have f: "generateFallbackQuestions p k (req_witnessName b) (req_documents b) \<noteq> []"
    using generateFallbackQuestions_length [of p k "req_witnessName b" "req_documents b"] by auto
  have pr: "price = (of_nat (length (systemPrompt p (req_witnessName b) @ userPrompt b @
                            message_content choices)) / 1000) * pricePerThousandChars cfg"
    if "llm = Responds choices" for choices
    using a that ask_llm_price [of p cfg b choices qs caught price chars k] by simp
  show ?thesis
  proof (cases "length qs = 0")
    case True
    with a assms f pr show ?thesis by (simp add: POST_generate_questions_def)
  next
    case False
    with a assms pr show ?thesis by (simp add: POST_generate_questions_def)
  qed
qed

lemma incrementSessionPrice_kept:
  assumes "now < sessionResetAt l" and "valid_time (add_hours p (sessionHours cfg) now)"
  shows "incrementSessionPrice p cfg now c (Some (Written (Stats l))) =
           Inr (Some (Written (Stats (l\<lparr>sessionPrice := sessionPrice l + c\<rparr>))))"
  using assms by (simp add: incrementSessionPrice_def ledger_kept with_price_def)

lemma limitReached_untouched:
  "t_limitReached (fst (generate_questions_operation p cfg now llm x)) = t_limitReached (fst x)"
  by (cases x)
    (auto simp: generate_questions_operation_def handleGenerateQuestions_def reply_of_def Let_def
      split: option.splits response.splits if_splits sum.splits prod.splits)

text \<open>
  C1, what the code does instead. For an active testimony session with a witness name, a
  case name and at least one document, a stored ledger record whose window has not ended,
  an answer of the model that is not empty and a positive price per thousand characters:
  the operation is carried out whatever the recorded cost and the price ceiling are. The
  route answers with questions and a positive cost \<open>D\<close>, the ledger goes from \<open>S\<close> to
  \<open>S + D\<close>, the tool moves to the questions step, no error is shown and \<open>limitReached\<close>
  stays as it was. Nothing in the statement refers to \<open>sessionPriceLimit\<close>.
\<close>

theorem price_limit_not_enforced:
  assumes s: "t_session ui = Some s" and stored: "getSession st (ps_id s) = Some s0"
    and valid: "ps_witnessName s \<noteq> []" "ps_caseName s \<noteq> []" "ps_documents s \<noteq> []"
    and ledger: "stats_item st = Some (Written (Stats l))" "now < sessionResetAt l"
      "valid_time (add_hours p (sessionHours cfg) now)"
    and llm: "llm = Responds (c # cs)" "c \<noteq> []" and price: "0 < pricePerThousandChars cfg"
  shows "\<exists>ui' st' D. generate_questions_operation p cfg now llm (ui, st) = (ui', st') \<and> 0 < D \<and>
           stats_item st' = Some (Written (Stats (l\<lparr>sessionPrice := sessionPrice l + D\<rparr>))) \<and>
           t_limitReached ui' = t_limitReached ui \<and> t_currentStep ui' = Questions \<and>
           t_error ui' = None"
proof -
  let ?b = "request_of s"
  have vb: "req_witnessName ?b \<noteq> []" "req_caseName ?b \<noteq> []" "req_documents ?b \<noteq> []"
    using valid by (simp_all add: request_of_def)
  from POST_valid_request [OF vb, of p cfg llm]
  obtain g where g: "POST_generate_questions p cfg (Some ?b) llm = Success g"
    and q: "questions g \<noteq> []"
    and c: "cost g = (of_nat (length (systemPrompt p (req_witnessName ?b) @ userPrompt ?b @
                            message_content (c # cs))) / 1000) * pricePerThousandChars cfg"
    using llm(1) by blast
  define n where "n = length (systemPrompt p (req_witnessName ?b) @ userPrompt ?b @
    message_content (c # cs))"
  have "0 < n" using llm(2) by (simp add: n_def message_content_def)
  then have "(0::rat) < of_nat n / 1000" by simp
  then have "0 < (of_nat n / 1000) * pricePerThousandChars cfg"
    using price by (rule mult_pos_pos)
  moreover have "cost g = (of_nat n / 1000) * pricePerThousandChars cfg"
    using c by (simp only: n_def)
  ultimately have pos: "0 < cost g" by (simp only:)
  have inc: "incrementSessionPrice p cfg now (cost g) (stats_item st) =
      Inr (Some (Written (Stats (l\<lparr>sessionPrice := sessionPrice l + cost g\<rparr>))))"
    using ledger by (simp add: incrementSessionPrice_kept)
  define ui' where "ui' = ui\<lparr>t_isGeneratingQuestions := False, t_error := None,
           t_session := Some (s0\<lparr>ps_questions := questions g\<rparr>), t_currentStep := Questions\<rparr>"
  define st' where "st' = put_session
       (st\<lparr>stats_item := Some (Written (Stats (l\<lparr>sessionPrice := sessionPrice l + cost g\<rparr>)))\<rparr>)
       (s0\<lparr>ps_questions := questions g\<rparr>)"
  have run: "generate_questions_operation p cfg now llm (ui, st) = (ui', st')"
    using s stored valid g q pos inc
    by (simp add: generate_questions_operation_def handleGenerateQuestions_def reply_of_def
        Let_def setQuestions_def getSession_def ui'_def st'_def)
  have "stats_item st' = Some (Written (Stats (l\<lparr>sessionPrice := sessionPrice l + cost g\<rparr>)))"
    by (simp add: st'_def put_session_def)
  moreover have "t_limitReached ui' = t_limitReached ui \<and> t_currentStep ui' = Questions \<and>
      t_error ui' = None"
    by (simp add: ui'_def)
  ultimately show ?thesis using run pos by blast
qed


theorem price_limit_not_enforced_witness:
  "sessionPriceLimit tight_config = 1 / 100 \<and>
   stats_item spent_store = Some (Written (Stats (example_ledger\<lparr>sessionPrice := 1 / 50\<rparr>))) \<and>
   (\<exists>ui' st' D.
      generate_questions_operation example_platform tight_config 5000
        (Responds [fenced example_answer])
        (example_testimony_ui\<lparr>t_session := Some ready_session\<rparr>, spent_store) = (ui', st') \<and>
      0 < D \<and>
      stats_item st' = Some (Written (Stats (example_ledger\<lparr>sessionPrice := 1 / 50 + D\<rparr>))) \<and>
      t_limitReached ui' = None \<and> t_currentStep ui' = Questions \<and> t_error ui' = None)"
proof -
  have s: "t_session (example_testimony_ui\<lparr>t_session := Some ready_session\<rparr>) = Some ready_session"
    by simp
  have stored: "getSession spent_store (ps_id ready_session) = Some ready_session"
    by (simp add: getSession_def spent_store_def ready_session_def example_session_def)
  have valid: "ps_witnessName ready_session \<noteq> []" "ps_caseName ready_session \<noteq> []"
    "ps_documents ready_session \<noteq> []"
    by (simp_all add: ready_session_def example_session_def str_def)
  have ledger: "stats_item spent_store = Some (Written (Stats (example_ledger\<lparr>sessionPrice := 1 / 50\<rparr>)))"
    "5000 < sessionResetAt (example_ledger\<lparr>sessionPrice := 1 / 50\<rparr>)"
    "valid_time (add_hours example_platform (sessionHours tight_config) 5000)"
    by (simp_all add: spent_store_def example_ledger_def add_hours_example valid_time_def tight_config_def
        default_config_def)
  have llm: "Responds [fenced example_answer] = Responds (fenced example_answer # [])"
    "fenced example_answer \<noteq> []"
    by (simp_all add: fenced_def fence_def)
  have price: "0 < pricePerThousandChars tight_config"
    by (simp add: tight_config_def default_config_def)
  have limit: "sessionPriceLimit tight_config = 1 / 100"
    by (simp add: tight_config_def)
  have none: "t_limitReached (example_testimony_ui\<lparr>t_session := Some ready_session\<rparr>) = None"
    by (simp add: example_testimony_ui_def)
  from price_limit_not_enforced [OF s stored valid ledger llm price]
    limit ledger(1) none
  show ?thesis by simp
qed

section \<open>Uploads: theorems\<close>

text \<open>
  C2, at the input of the scenario. With room for one document per session and a session
  that holds none, a batch of two small text files leaves two documents in the persisted
  session, in either tool, and neither an error message nor a limit notice.
\<close>

theorem batch_exceeds_document_limit:
  "maxDocumentsPerSession one_document_config = 1 \<and>
   (case handleFileUpload_deposition example_platform one_document_config 5000
           (Some [file_a, file_b]) (example_deposition_ui, example_store) of
      (ui', st') \<Rightarrow>
        (map dd_name (case deposition_sessions st' (str ''d1'') of
                        None \<Rightarrow> [] | Some s \<Rightarrow> ds_documents s),
         d_error ui', d_limitReached ui')) =
     ([str ''a.txt'', str ''b.txt''], None, None) \<and>
   (case handleFileUpload_testimony example_platform one_document_config 5000
           (Some [file_a, file_b]) (example_testimony_ui, example_store) of
      (ui', st') \<Rightarrow>
        (map td_name (case testimony_sessions st' (str ''s1'') of
                        None \<Rightarrow> [] | Some s \<Rightarrow> ps_documents s),
         t_error ui', t_limitReached ui')) =
     ([str ''a.txt'', str ''b.txt''], None, None)"
  by (simp add: upload_defs one_document_config_def default_config_def example_deposition_ui_def
      example_testimony_ui_def example_store_def example_deposition_def example_session_def
      example_ledger_def file_a_def file_b_def Let_def str_def example_platform_def)

text \<open>
  C6, as the code has it. In both upload handlers the document count of the session is
  tested first, before any file is looked at: when the session is full nothing is uploaded
  and the document limit is what the user is told, whatever the sizes of the files. When
  the session is not full a file over the size limit is refused with the file-size message.
  The limit service of earlier versions tests the file size first, then the document count,
  then the page counts.
\<close>

theorem upload_checks_order:
  assumes "d_session dui = Some ds" and "t_session tui = Some ts"
  shows "(maxDocumentsPerSession cfg \<le> int (length (ds_documents ds)) \<longrightarrow>
            handleFileUpload_deposition p cfg now (Some fs) (dui, st) =
              (dui\<lparr>d_limitReached := Some documentLimit,
                    d_error := Some (session_limit_message p cfg)\<rparr>, st)) \<and>
         (maxDocumentsPerSession cfg \<le> int (length (ps_documents ts)) \<longrightarrow>
            handleFileUpload_testimony p cfg now (Some fs) (tui, st) =
              (tui\<lparr>t_limitReached := Some documentLimit\<rparr>, st)) \<and>
         (int (length (ds_documents ds)) < maxDocumentsPerSession cfg \<and>
          maxFileSize cfg < file_size f \<longrightarrow>
            handleFileUpload_deposition p cfg now (Some [f]) (dui, st) =
              (dui\<lparr>d_isUploadingDocument := False,
                    d_error := Some (too_large_message p cfg (file_name f))\<rparr>, st)) \<and>
         (int (length (ps_documents ts)) < maxDocumentsPerSession cfg \<and>
          maxFileSize cfg < file_size f \<longrightarrow>
            handleFileUpload_testimony p cfg now (Some [f]) (tui, st) =
              (tui\<lparr>t_isUploadingDocument := False,
                    t_error := Some (too_large_message p cfg (file_name f))\<rparr>, st)) \<and>
         checkUploadAllowed limits usage fileSize estimatedPages =
           (if fileSize > ocr_maxFileSize limits then Some FileSizeExceeded
            else if sessionDocuments usage \<ge> ocr_maxDocumentsPerSession limits
            then Some SessionDocumentLimit
            else checkPagesAllowed limits usage estimatedPages)"
  using assms
  by (simp add: handleFileUpload_deposition_def handleFileUpload_testimony_def
      testimony_upload_one_def checkUploadAllowed_def checkFileSizeAllowed_def
      checkDocumentUploadAllowed_def)


theorem upload_checks_order_witness:
  "maxDocumentsPerSession one_document_config \<le> int (length (ds_documents full_deposition)) \<and>
   handleFileUpload_deposition example_platform one_document_config 5000 (Some [file_big])
     (example_deposition_ui\<lparr>d_session := Some full_deposition\<rparr>, example_store) =
     (example_deposition_ui\<lparr>d_session := Some full_deposition,
        d_limitReached := Some documentLimit,
        d_error := Some (session_limit_message example_platform one_document_config)\<rparr>,
      example_store) \<and>
   int (length (ds_documents example_deposition)) < maxDocumentsPerSession one_document_config \<and>
   maxFileSize one_document_config < file_size file_big \<and>
   handleFileUpload_deposition example_platform one_document_config 5000 (Some [file_big])
     (example_deposition_ui, example_store) =
     (example_deposition_ui\<lparr>d_isUploadingDocument := False,
        d_error := Some (too_large_message example_platform one_document_config (file_name file_big))\<rparr>,
      example_store)"
proof -
  have full: "maxDocumentsPerSession one_document_config \<le> int (length (ds_documents full_deposition))"
    by (simp add: one_document_config_def full_deposition_def)
  have room: "int (length (ds_documents example_deposition)) < maxDocumentsPerSession one_document_config"
    by (simp add: one_document_config_def example_deposition_def)
  have big: "maxFileSize one_document_config < file_size file_big"
    by (simp add: one_document_config_def default_config_def file_big_def)
  have d1: "d_session (example_deposition_ui\<lparr>d_session := Some full_deposition\<rparr>) = Some full_deposition"
    by simp
  have d2: "d_session example_deposition_ui = Some example_deposition"
    by (simp add: example_deposition_ui_def)
  have t: "t_session example_testimony_ui = Some example_session"
    by (simp add: example_testimony_ui_def)
  from upload_checks_order [OF d1 t, of one_document_config example_platform 5000 "[file_big]"
      example_store file_big]
    upload_checks_order [OF d2 t, of one_document_config example_platform 5000 "[file_big]"
      example_store file_big]
    full room big
  show ?thesis by simp
qed

text \<open>
  A session that is full and a file of 20 MB, over the size limit of 10 MB: the handler of
  the deposition tool reports the document limit, not the size of the file.
\<close>

theorem size_reason_not_first:
  "handleFileUpload_deposition example_platform one_document_config 5000 (Some [file_big])
     (example_deposition_ui\<lparr>d_session := Some full_deposition\<rparr>, example_store) =
     (example_deposition_ui\<lparr>d_session := Some full_deposition,
        d_limitReached := Some documentLimit,
        d_error := Some (str ''Demo limit: Maximum 1 documents per session'')\<rparr>, example_store) \<and>
   maxFileSize one_document_config < file_size file_big \<and>
   too_large_message example_platform one_document_config (file_name file_big) =
     str ''File \"big.txt\" exceeds 10MB limit''"
  by (simp add: handleFileUpload_deposition_def one_document_config_def default_config_def
      full_deposition_def example_deposition_def session_limit_message_def too_large_message_def
      example_platform_def file_big_def decimal.simps str_def)


end
